theory Spec2Isabelle
  imports Main "HOL-Library.Word"
begin

section \<open>Primitive types of the contract ConfidentialPerpDEX\<close>

text \<open>
  An account is an \<open>address\<close>. An \<open>euint64\<close> is an encrypted unsigned 64-bit integer; it is
  represented by the 64-bit value it encrypts, so every operation of the external library
  \<^verbatim>\<open>fhevm/lib/TFHE.sol\<close> is its meaning on the encrypted values: \<open>add\<close>, \<open>sub\<close> and
  \<open>mul\<close> wrap around modulo \<open>2 ^ 64\<close>, \<open>div\<close> takes a plaintext divisor, and a comparison yields
  an \<open>ebool\<close>, the truth value it encrypts. The encoded inputs (\<^verbatim>\<open>bytes memory encSize\<close> and
  the like) are represented by the value that \<^verbatim>\<open>TFHE.asEuint64\<close> decodes them to.
\<close>

type_synonym address = nat
type_synonym euint64 = "64 word"
type_synonym ebool = bool

text \<open>
  A position id is \<^verbatim>\<open>keccak256(abi.encodePacked(msg.sender, block.timestamp, size))\<close>. The hash is
  represented by a free constructor over the three packed values (each as the number it
  denotes), that is, as collision-free; \<open>Other32\<close> stands for the values of \<^verbatim>\<open>bytes32\<close>
  that are no such hash. In ConfidentialPerpDEX the third packed value is the handle of the
  encrypted size; as every \<open>euint64\<close> it is represented by the value it encrypts, so the same
  encoded input gives the same id. In the mock it is the size itself.
\<close>

datatype bytes32 = Keccak256 address nat nat | Other32 nat

fun packedSender :: "bytes32 \<Rightarrow> address option" where
  "packedSender (Keccak256 a t sz) = Some a"
| "packedSender (Other32 n) = None"

text \<open>
  The revert reasons of the two contracts: the messages of their \<^verbatim>\<open>require\<close> statements
  (\<^verbatim>\<open>"Position not open"\<close>, \<^verbatim>\<open>"Only admin"\<close>, \<^verbatim>\<open>"Insufficient balance"\<close>,
  \<^verbatim>\<open>"Position not liquidatable"\<close>), a division by zero, an overflow of checked arithmetic and
  an array index out of bounds. A call that reverts leaves the state as it was, so a failing
  operation returns the reason only.
\<close>

datatype error =
    Position_not_open
  | Only_admin
  | Insufficient_balance
  | Position_not_liquidatable
  | Division_by_zero
  | Arithmetic_overflow
  | Index_out_of_bounds

text \<open>
  The error classes of the specification, and the class of the revert reasons it classifies:
  operating on a closed or nonexistent position is an \<open>InvalidStateError\<close>, a caller that is
  not the admin an \<open>UnauthorizedError\<close>.
\<close>

datatype spec_error = InvalidStateError | UnauthorizedError | MalformedCiphertext

fun errorClass :: "error \<Rightarrow> spec_error option" where
  "errorClass Position_not_open = Some InvalidStateError"
| "errorClass Only_admin = Some UnauthorizedError"
| "errorClass e = None"

definition TFHE_add :: "euint64 \<Rightarrow> euint64 \<Rightarrow> euint64" where
  "TFHE_add a b = a + b"

definition TFHE_sub :: "euint64 \<Rightarrow> euint64 \<Rightarrow> euint64" where
  "TFHE_sub a b = a - b"

definition TFHE_mul :: "euint64 \<Rightarrow> euint64 \<Rightarrow> euint64" where
  "TFHE_mul a b = a * b"

text \<open>
  Division by a plaintext divisor. The sources do not say what the library does with the
  divisor zero; here the call fails, as the division of the mock does. Every statement below
  about a division has a divisor other than zero.
\<close>

definition TFHE_div :: "euint64 \<Rightarrow> 64 word \<Rightarrow> error + euint64" where
  "TFHE_div a b = (if b = 0 then Inl Division_by_zero else Inr (a div b))"

definition TFHE_lt :: "euint64 \<Rightarrow> euint64 \<Rightarrow> ebool" where
  "TFHE_lt a b = (a < b)"

definition TFHE_gt :: "euint64 \<Rightarrow> euint64 \<Rightarrow> ebool" where
  "TFHE_gt a b = (a > b)"

definition TFHE_le :: "euint64 \<Rightarrow> euint64 \<Rightarrow> ebool" where
  "TFHE_le a b = (a \<le> b)"

definition TFHE_ge :: "euint64 \<Rightarrow> euint64 \<Rightarrow> ebool" where
  "TFHE_ge a b = (a \<ge> b)"

text \<open>
  A balance that was never written is an uninitialised handle (\<open>None\<close>);
  \<^verbatim>\<open>TFHE.isInitialized\<close> tells it from a written one, and the arithmetic of the library
  reads an uninitialised operand as the encryption of zero.
\<close>

definition TFHE_isInitialized :: "euint64 option \<Rightarrow> bool" where
  "TFHE_isInitialized h = (h \<noteq> None)"

fun operand :: "euint64 option \<Rightarrow> euint64" where
  "operand None = 0"
| "operand (Some v) = v"

section \<open>The state of ConfidentialPerpDEX\<close>

record EncryptedPosition =
  size_p :: euint64
  entryPrice :: euint64
  collateral :: euint64
  leverage :: "8 word"
  isLong :: bool
  timestamp :: nat
  isOpen :: bool
  stopLoss :: euint64
  takeProfit :: euint64

record EncryptedOrder =
  price :: euint64
  size_o :: euint64
  trader :: address
  isLong_o :: bool
  isFilled :: bool
  timestamp_o :: nat

datatype event =
    PositionOpened address bytes32 bool
  | PositionClosed address bytes32
  | StopLossTriggered address bytes32
  | TakeProfitTriggered address bytes32
  | StopLossTakeProfitUpdated address bytes32
  | OrderPlaced address nat bool
  | OrderMatched nat nat
  | LiquidationTriggered address bytes32
  | PriceUpdated nat
  | BalanceDeposited address nat

text \<open>
  The storage of the contract, and the log of the events emitted so far. A Solidity mapping is
  total: a key never written holds the zero value of its type.
\<close>

record dex =
  encryptedBalances :: "address \<Rightarrow> euint64 option"
  positions :: "address \<Rightarrow> bytes32 \<Rightarrow> EncryptedPosition"
  userPositionIds :: "address \<Rightarrow> bytes32 list"
  orderBook :: "EncryptedOrder list"
  encryptedOraclePrice :: euint64
  liquidationThreshold :: euint64
  fundingRate :: euint64
  admin :: address
  events :: "event list"

definition zeroPosition :: EncryptedPosition where
  "zeroPosition = \<lparr>size_p = 0, entryPrice = 0, collateral = 0, leverage = 0, isLong = False,
     timestamp = 0, isOpen = False, stopLoss = 0, takeProfit = 0\<rparr>"

definition emit :: "event \<Rightarrow> dex \<Rightarrow> dex" where
  "emit e s = s\<lparr>events := events s @ [e]\<rparr>"

definition setPosition :: "address \<Rightarrow> bytes32 \<Rightarrow> EncryptedPosition \<Rightarrow> dex \<Rightarrow> dex" where
  "setPosition a pid p s = s\<lparr>positions := (positions s)(a := (positions s a)(pid := p))\<rparr>"

definition setBalance :: "address \<Rightarrow> euint64 \<Rightarrow> dex \<Rightarrow> dex" where
  "setBalance a v s = s\<lparr>encryptedBalances := (encryptedBalances s)(a := Some v)\<rparr>"

section \<open>The operations of ConfidentialPerpDEX\<close>

text \<open>Every operation takes the state first, then \<^verbatim>\<open>msg.sender\<close> (and \<^verbatim>\<open>block.timestamp\<close>
  where the code reads it), then the arguments of the Solidity function.\<close>

definition constructor :: "address \<Rightarrow> dex" where
  "constructor sender = \<lparr>encryptedBalances = (\<lambda>_. None), positions = (\<lambda>_ _. zeroPosition),
     userPositionIds = (\<lambda>_. []), orderBook = [], encryptedOraclePrice = 50000 * 100,
     liquidationThreshold = 500, fundingRate = 10, admin = sender, events = []\<rparr>"

definition deposit :: "dex \<Rightarrow> address \<Rightarrow> euint64 \<Rightarrow> dex" where
  "deposit s sender amount =
     (let currentBalance = encryptedBalances s sender;
          s1 = (if TFHE_isInitialized currentBalance
                then setBalance sender (TFHE_add (operand currentBalance) amount) s
                else setBalance sender amount s)
      in emit (BalanceDeposited sender 0) s1)"

definition getBalance :: "dex \<Rightarrow> address \<Rightarrow> euint64 option" where
  "getBalance s sender = encryptedBalances s sender"

definition openPosition ::
  "dex \<Rightarrow> address \<Rightarrow> nat \<Rightarrow> euint64 \<Rightarrow> 8 word \<Rightarrow> bool \<Rightarrow> euint64 \<Rightarrow> euint64 \<Rightarrow> error + (bytes32 \<times> dex)" where
  "openPosition s sender now size' leverage' isLong' stopLoss' takeProfit' =
     (let positionValue = TFHE_mul size' (encryptedOraclePrice s) in
      case TFHE_div positionValue (ucast leverage') of
        Inl e \<Rightarrow> Inl e
      | Inr requiredCollateral \<Rightarrow>
          let userBalance = encryptedBalances s sender;
              s1 = setBalance sender (TFHE_sub (operand userBalance) requiredCollateral) s;
              positionId = Keccak256 sender now (unat size');
              s2 = setPosition sender positionId
                     \<lparr>size_p = size', entryPrice = encryptedOraclePrice s1,
                      collateral = requiredCollateral, leverage = leverage', isLong = isLong',
                      timestamp = now, isOpen = True, stopLoss = stopLoss',
                      takeProfit = takeProfit'\<rparr> s1;
              s3 = s2\<lparr>userPositionIds :=
                        (userPositionIds s2)(sender := userPositionIds s2 sender @ [positionId])\<rparr>
          in Inr (positionId, emit (PositionOpened sender positionId isLong') s3))"

definition calculatePnL :: "dex \<Rightarrow> address \<Rightarrow> bytes32 \<Rightarrow> error + euint64" where
  "calculatePnL s trader' positionId =
     (let pos = positions s trader' positionId in
      if \<not> isOpen pos then Inl Position_not_open
      else
        let priceDiff = (if isLong pos then TFHE_sub (encryptedOraclePrice s) (entryPrice pos)
                         else TFHE_sub (entryPrice pos) (encryptedOraclePrice s))
        in Inr (TFHE_mul priceDiff (size_p pos)))"

definition closePosition :: "dex \<Rightarrow> address \<Rightarrow> bytes32 \<Rightarrow> error + dex" where
  "closePosition s sender positionId =
     (let pos = positions s sender positionId in
      if \<not> isOpen pos then Inl Position_not_open
      else
        case calculatePnL s sender positionId of
          Inl e \<Rightarrow> Inl e
        | Inr pnl \<Rightarrow>
            let returnAmount = TFHE_add (collateral pos) pnl;
                s1 = setBalance sender (TFHE_add (operand (encryptedBalances s sender)) returnAmount) s;
                s2 = setPosition sender positionId ((positions s1 sender positionId)\<lparr>isOpen := False\<rparr>) s1
            in Inr (emit (PositionClosed sender positionId) s2))"

definition updateStopLossTakeProfit ::
  "dex \<Rightarrow> address \<Rightarrow> bytes32 \<Rightarrow> euint64 \<Rightarrow> euint64 \<Rightarrow> error + dex" where
  "updateStopLossTakeProfit s sender positionId encStopLoss encTakeProfit =
     (let pos = positions s sender positionId in
      if \<not> isOpen pos then Inl Position_not_open
      else
        let s1 = setPosition sender positionId (pos\<lparr>stopLoss := encStopLoss\<rparr>) s;
            s2 = setPosition sender positionId
                   ((positions s1 sender positionId)\<lparr>takeProfit := encTakeProfit\<rparr>) s1
        in Inr (emit (StopLossTakeProfitUpdated sender positionId) s2))"

definition checkStopLossTakeProfit :: "dex \<Rightarrow> address \<Rightarrow> bytes32 \<Rightarrow> error + (ebool \<times> ebool)" where
  "checkStopLossTakeProfit s trader' positionId =
     (let pos = positions s trader' positionId in
      if \<not> isOpen pos then Inl Position_not_open
      else
        let slTriggered = (if isLong pos then TFHE_lt (encryptedOraclePrice s) (stopLoss pos)
                           else TFHE_gt (encryptedOraclePrice s) (stopLoss pos));
            tpTriggered = (if isLong pos then TFHE_gt (encryptedOraclePrice s) (takeProfit pos)
                           else TFHE_lt (encryptedOraclePrice s) (takeProfit pos))
        in Inr (slTriggered, tpTriggered))"

definition executeStopLossTakeProfit :: "dex \<Rightarrow> address \<Rightarrow> address \<Rightarrow> bytes32 \<Rightarrow> error + dex" where
  "executeStopLossTakeProfit s sender trader' positionId =
     (let pos = positions s trader' positionId in
      if \<not> isOpen pos then Inl Position_not_open
      else
        case checkStopLossTakeProfit s trader' positionId of
          Inl e \<Rightarrow> Inl e
        | Inr (slTriggered, tpTriggered) \<Rightarrow>
            (case calculatePnL s trader' positionId of
               Inl e \<Rightarrow> Inl e
             | Inr pnl \<Rightarrow>
                 let returnAmount = TFHE_add (collateral pos) pnl;
                     s1 = setBalance trader'
                            (TFHE_add (operand (encryptedBalances s trader')) returnAmount) s;
                     s2 = setPosition trader' positionId
                            ((positions s1 trader' positionId)\<lparr>isOpen := False\<rparr>) s1
                 in Inr (emit (PositionClosed trader' positionId) s2)))"

definition checkLiquidation :: "dex \<Rightarrow> address \<Rightarrow> bytes32 \<Rightarrow> error + ebool" where
  "checkLiquidation s trader' positionId =
     (let pos = positions s trader' positionId in
      if \<not> isOpen pos then Inl Position_not_open
      else
        let positionValue = TFHE_mul (size_p pos) (encryptedOraclePrice s) in
        case calculatePnL s trader' positionId of
          Inl e \<Rightarrow> Inl e
        | Inr pnl \<Rightarrow>
            let netValue = TFHE_add (collateral pos) pnl;
                netValueScaled = TFHE_mul netValue 10000;
                thresholdValue = TFHE_mul positionValue (liquidationThreshold s)
            in Inr (TFHE_lt netValueScaled thresholdValue))"

definition liquidate :: "dex \<Rightarrow> address \<Rightarrow> address \<Rightarrow> bytes32 \<Rightarrow> error + dex" where
  "liquidate s sender trader' positionId =
     (let pos = positions s trader' positionId in
      if \<not> isOpen pos then Inl Position_not_open
      else
        let s1 = setPosition trader' positionId (pos\<lparr>isOpen := False\<rparr>) s in
        case TFHE_div (collateral (positions s1 trader' positionId)) 10 of
          Inl e \<Rightarrow> Inl e
        | Inr liquidationReward \<Rightarrow>
            let s2 = setBalance sender
                       (TFHE_add (operand (encryptedBalances s1 sender)) liquidationReward) s1
            in Inr (emit (LiquidationTriggered trader' positionId) s2))"

text \<open>
  The loop of \<^verbatim>\<open>_matchOrders\<close>, from index \<open>i\<close> on. The state changes only in the iteration
  that ends the loop, so the iterations that \<^verbatim>\<open>continue\<close> pass it on as it is.
\<close>

function matchOrders_loop :: "dex \<Rightarrow> nat \<Rightarrow> nat \<Rightarrow> dex" where
  "matchOrders_loop s newOrderId i =
     (if i < length (orderBook s) then
        if i = newOrderId then matchOrders_loop s newOrderId (i + 1)
        else
          let newOrder = orderBook s ! newOrderId;
              existingOrder = orderBook s ! i
          in
            if isLong_o existingOrder = isLong_o newOrder then matchOrders_loop s newOrderId (i + 1)
            else if isFilled existingOrder \<or> isFilled newOrder
              then matchOrders_loop s newOrderId (i + 1)
            else
              let canMatch = (if isLong_o newOrder
                              then TFHE_ge (price newOrder) (price existingOrder)
                              else TFHE_le (price newOrder) (price existingOrder));
                  ob1 = (orderBook s)[newOrderId := newOrder\<lparr>isFilled := True\<rparr>];
                  ob2 = ob1[i := (ob1 ! i)\<lparr>isFilled := True\<rparr>]
              in emit (OrderMatched newOrderId i) (s\<lparr>orderBook := ob2\<rparr>)
      else s)"
  by pat_completeness auto
termination
  by (relation "measure (\<lambda>(s, newOrderId, i). length (orderBook s) - i)") auto

declare matchOrders_loop.simps [simp del]

definition matchOrders :: "dex \<Rightarrow> nat \<Rightarrow> error + dex" where
  "matchOrders s newOrderId =
     (if newOrderId < length (orderBook s) then Inr (matchOrders_loop s newOrderId 0)
      else Inl Index_out_of_bounds)"

definition placeOrder ::
  "dex \<Rightarrow> address \<Rightarrow> nat \<Rightarrow> euint64 \<Rightarrow> euint64 \<Rightarrow> bool \<Rightarrow> error + (nat \<times> dex)" where
  "placeOrder s sender now price' size' isLong' =
     (let s1 = s\<lparr>orderBook := orderBook s @
                  [\<lparr>price = price', size_o = size', trader = sender, isLong_o = isLong',
                    isFilled = False, timestamp_o = now\<rparr>]\<rparr>;
          orderId = length (orderBook s1) - 1;
          s2 = emit (OrderPlaced sender orderId isLong') s1
      in case matchOrders s2 orderId of
           Inl e \<Rightarrow> Inl e
         | Inr s3 \<Rightarrow> Inr (orderId, s3))"

definition updateOraclePrice :: "dex \<Rightarrow> address \<Rightarrow> nat \<Rightarrow> euint64 \<Rightarrow> error + dex" where
  "updateOraclePrice s sender now encNewPrice =
     (if sender \<noteq> admin s then Inl Only_admin
      else Inr (emit (PriceUpdated now) (s\<lparr>encryptedOraclePrice := encNewPrice\<rparr>)))"

definition getOraclePrice :: "dex \<Rightarrow> euint64" where
  "getOraclePrice s = encryptedOraclePrice s"

definition getUserPositions :: "dex \<Rightarrow> address \<Rightarrow> bytes32 list" where
  "getUserPositions s user = userPositionIds s user"

definition getOrderBookSize :: "dex \<Rightarrow> nat" where
  "getOrderBookSize s = length (orderBook s)"

section \<open>Sequences of transactions\<close>

text \<open>
  The ledger is a sequential state machine: a transaction is one call of a mutating entry
  point, and the states the contract can be in are those that successful transactions lead to
  from the state the constructor leaves.
\<close>

datatype call =
    Deposit address euint64
  | OpenPosition address nat euint64 "8 word" bool euint64 euint64
  | ClosePosition address bytes32
  | UpdateStopLossTakeProfit address bytes32 euint64 euint64
  | ExecuteStopLossTakeProfit address address bytes32
  | Liquidate address address bytes32
  | PlaceOrder address nat euint64 euint64 bool
  | UpdateOraclePrice address nat euint64

fun step :: "dex \<Rightarrow> call \<Rightarrow> error + dex" where
  "step s (Deposit sender amount) = Inr (deposit s sender amount)"
| "step s (OpenPosition sender now sz lev l sl tp) =
     (case openPosition s sender now sz lev l sl tp of Inl e \<Rightarrow> Inl e | Inr (pid, s') \<Rightarrow> Inr s')"
| "step s (ClosePosition sender pid) = closePosition s sender pid"
| "step s (UpdateStopLossTakeProfit sender pid sl tp) = updateStopLossTakeProfit s sender pid sl tp"
| "step s (ExecuteStopLossTakeProfit sender t pid) = executeStopLossTakeProfit s sender t pid"
| "step s (Liquidate sender t pid) = liquidate s sender t pid"
| "step s (PlaceOrder sender now p sz l) =
     (case placeOrder s sender now p sz l of Inl e \<Rightarrow> Inl e | Inr (oid, s') \<Rightarrow> Inr s')"
| "step s (UpdateOraclePrice sender now p) = updateOraclePrice s sender now p"

inductive reachable :: "dex \<Rightarrow> bool" where
  reachable_init: "reachable (constructor a)"
| reachable_step: "reachable s \<Longrightarrow> step s c = Inr s' \<Longrightarrow> reachable s'"

text \<open>A transaction that reverts leaves the state as it was.\<close>

definition transact :: "dex \<Rightarrow> call \<Rightarrow> dex" where
  "transact s c = (case step s c of Inl e \<Rightarrow> s | Inr s' \<Rightarrow> s')"

fun run :: "dex \<Rightarrow> call list \<Rightarrow> dex" where
  "run s [] = s"
| "run s (c # cs) = run (transact s c) cs"

text \<open>
  The \<open>openPosition\<close> calls that compute the position id \<open>p\<close> for the account \<open>t\<close>: those of
  \<open>t\<close> itself with the timestamp and the size that are packed into \<open>p\<close>.
\<close>

fun reopens :: "address \<Rightarrow> bytes32 \<Rightarrow> call \<Rightarrow> bool" where
  "reopens t p (OpenPosition a now sz lev l sl tp) = (a = t \<and> p = Keccak256 a now (unat sz))"
| "reopens t p c = False"

section \<open>The contract ConfidentialPerpDEXMock\<close>

text \<open>
  The mock keeps every quantity as a plain \<^verbatim>\<open>uint256\<close>. Its arithmetic is the checked
  arithmetic of Solidity 0.8: an overflow, an underflow or a division by zero reverts. The
  arguments \<^verbatim>\<open>bytes memory enc...\<close> are represented by the value \<^verbatim>\<open>_mockDecrypt\<close> reads
  from them. The names of the mock carry the suffix \<open>_m\<close>.
\<close>

type_synonym uint256 = "256 word"

definition checked_add :: "uint256 \<Rightarrow> uint256 \<Rightarrow> error + uint256" where
  "checked_add a b = (if unat a + unat b < 2 ^ 256 then Inr (a + b) else Inl Arithmetic_overflow)"

definition checked_sub :: "uint256 \<Rightarrow> uint256 \<Rightarrow> error + uint256" where
  "checked_sub a b = (if b \<le> a then Inr (a - b) else Inl Arithmetic_overflow)"

definition checked_mul :: "uint256 \<Rightarrow> uint256 \<Rightarrow> error + uint256" where
  "checked_mul a b = (if unat a * unat b < 2 ^ 256 then Inr (a * b) else Inl Arithmetic_overflow)"

definition checked_div :: "uint256 \<Rightarrow> uint256 \<Rightarrow> error + uint256" where
  "checked_div a b = (if b = 0 then Inl Division_by_zero else Inr (a div b))"

record Position =
  size_m :: uint256
  entryPrice_m :: uint256
  collateral_m :: uint256
  leverage_m :: "8 word"
  isLong_m :: bool
  timestamp_m :: nat
  isOpen_m :: bool

record Order =
  price_m :: uint256
  size_om :: uint256
  trader_m :: address
  isLong_om :: bool
  isFilled_m :: bool
  timestamp_om :: nat

record mock =
  balances :: "address \<Rightarrow> uint256"
  positions_m :: "address \<Rightarrow> bytes32 \<Rightarrow> Position"
  userPositionIds_m :: "address \<Rightarrow> bytes32 list"
  orderBook_m :: "Order list"
  oraclePrice :: uint256
  liquidationThreshold_m :: uint256
  fundingRate_m :: uint256
  admin_m :: address
  events_m :: "event list"

definition zeroPosition_m :: Position where
  "zeroPosition_m = \<lparr>size_m = 0, entryPrice_m = 0, collateral_m = 0, leverage_m = 0,
     isLong_m = False, timestamp_m = 0, isOpen_m = False\<rparr>"

definition emit_m :: "event \<Rightarrow> mock \<Rightarrow> mock" where
  "emit_m e s = s\<lparr>events_m := events_m s @ [e]\<rparr>"

definition setPosition_m :: "address \<Rightarrow> bytes32 \<Rightarrow> Position \<Rightarrow> mock \<Rightarrow> mock" where
  "setPosition_m a pid p s = s\<lparr>positions_m := (positions_m s)(a := (positions_m s a)(pid := p))\<rparr>"

definition setBalance_m :: "address \<Rightarrow> uint256 \<Rightarrow> mock \<Rightarrow> mock" where
  "setBalance_m a v s = s\<lparr>balances := (balances s)(a := v)\<rparr>"

definition constructor_m :: "address \<Rightarrow> mock" where
  "constructor_m sender = \<lparr>balances = (\<lambda>_. 0), positions_m = (\<lambda>_ _. zeroPosition_m),
     userPositionIds_m = (\<lambda>_. []), orderBook_m = [], oraclePrice = 50000 * 100,
     liquidationThreshold_m = 500, fundingRate_m = 10, admin_m = sender, events_m = []\<rparr>"

definition deposit_m :: "mock \<Rightarrow> address \<Rightarrow> uint256 \<Rightarrow> error + mock" where
  "deposit_m s sender amount =
     (case checked_add (balances s sender) amount of
        Inl e \<Rightarrow> Inl e
      | Inr b \<Rightarrow> Inr (emit_m (BalanceDeposited sender 0) (setBalance_m sender b s)))"

definition openPosition_m ::
  "mock \<Rightarrow> address \<Rightarrow> nat \<Rightarrow> uint256 \<Rightarrow> 8 word \<Rightarrow> bool \<Rightarrow> error + (bytes32 \<times> mock)" where
  "openPosition_m s sender now size' leverage' isLong' =
     (case checked_mul size' (oraclePrice s) of
        Inl e \<Rightarrow> Inl e
      | Inr positionValue \<Rightarrow>
          (case checked_div positionValue (ucast leverage') of
             Inl e \<Rightarrow> Inl e
           | Inr requiredCollateral \<Rightarrow>
               if \<not> balances s sender \<ge> requiredCollateral then Inl Insufficient_balance
               else
                 (case checked_sub (balances s sender) requiredCollateral of
                    Inl e \<Rightarrow> Inl e
                  | Inr b \<Rightarrow>
                      let s1 = setBalance_m sender b s;
                          positionId = Keccak256 sender now (unat size');
                          s2 = setPosition_m sender positionId
                                 \<lparr>size_m = size', entryPrice_m = oraclePrice s1,
                                  collateral_m = requiredCollateral, leverage_m = leverage',
                                  isLong_m = isLong', timestamp_m = now, isOpen_m = True\<rparr> s1;
                          s3 = s2\<lparr>userPositionIds_m := (userPositionIds_m s2)
                                    (sender := userPositionIds_m s2 sender @ [positionId])\<rparr>
                      in Inr (positionId, emit_m (PositionOpened sender positionId isLong') s3))))"

definition calculatePnL_m :: "mock \<Rightarrow> address \<Rightarrow> bytes32 \<Rightarrow> error + uint256" where
  "calculatePnL_m s trader' positionId =
     (let pos = positions_m s trader' positionId in
      if \<not> isOpen_m pos then Inl Position_not_open
      else
        case (if isLong_m pos then
                if oraclePrice s > entryPrice_m pos
                then checked_sub (oraclePrice s) (entryPrice_m pos)
                else Inr 0
              else
                if entryPrice_m pos > oraclePrice s
                then checked_sub (entryPrice_m pos) (oraclePrice s)
                else Inr 0) of
          Inl e \<Rightarrow> Inl e
        | Inr priceDiff \<Rightarrow> checked_mul priceDiff (size_m pos))"

definition closePosition_m :: "mock \<Rightarrow> address \<Rightarrow> bytes32 \<Rightarrow> error + mock" where
  "closePosition_m s sender positionId =
     (let pos = positions_m s sender positionId in
      if \<not> isOpen_m pos then Inl Position_not_open
      else
        case calculatePnL_m s sender positionId of
          Inl e \<Rightarrow> Inl e
        | Inr pnl \<Rightarrow>
            (case checked_add (collateral_m pos) pnl of
               Inl e \<Rightarrow> Inl e
             | Inr returnAmount \<Rightarrow>
                 (case checked_add (balances s sender) returnAmount of
                    Inl e \<Rightarrow> Inl e
                  | Inr b \<Rightarrow>
                      let s1 = setBalance_m sender b s;
                          s2 = setPosition_m sender positionId
                                 ((positions_m s1 sender positionId)\<lparr>isOpen_m := False\<rparr>) s1
                      in Inr (emit_m (PositionClosed sender positionId) s2))))"



function matchOrders_loop_m :: "mock \<Rightarrow> nat \<Rightarrow> nat \<Rightarrow> mock" where
  "matchOrders_loop_m s newOrderId i =
     (if i < length (orderBook_m s) then
        if i = newOrderId then matchOrders_loop_m s newOrderId (i + 1)
        else
          let newOrder = orderBook_m s ! newOrderId;
              existingOrder = orderBook_m s ! i
          in
            if isLong_om existingOrder = isLong_om newOrder
              then matchOrders_loop_m s newOrderId (i + 1)
            else if isFilled_m existingOrder \<or> isFilled_m newOrder
              then matchOrders_loop_m s newOrderId (i + 1)
            else
              let canMatch = (if isLong_om newOrder
                              then price_m newOrder \<ge> price_m existingOrder
                              else price_m newOrder \<le> price_m existingOrder)
              in
                if canMatch then
                  let ob1 = (orderBook_m s)[newOrderId := newOrder\<lparr>isFilled_m := True\<rparr>];
                      ob2 = ob1[i := (ob1 ! i)\<lparr>isFilled_m := True\<rparr>]
                  in emit_m (OrderMatched newOrderId i) (s\<lparr>orderBook_m := ob2\<rparr>)
                else matchOrders_loop_m s newOrderId (i + 1)
      else s)"
  by pat_completeness auto
termination
  by (relation "measure (\<lambda>(s, newOrderId, i). length (orderBook_m s) - i)") auto

declare matchOrders_loop_m.simps [simp del]

definition matchOrders_m :: "mock \<Rightarrow> nat \<Rightarrow> error + mock" where
  "matchOrders_m s newOrderId =
     (if newOrderId < length (orderBook_m s) then Inr (matchOrders_loop_m s newOrderId 0)
      else Inl Index_out_of_bounds)"

definition placeOrder_m ::
  "mock \<Rightarrow> address \<Rightarrow> nat \<Rightarrow> uint256 \<Rightarrow> uint256 \<Rightarrow> bool \<Rightarrow> error + (nat \<times> mock)" where
  "placeOrder_m s sender now price' size' isLong' =
     (let s1 = s\<lparr>orderBook_m := orderBook_m s @
                  [\<lparr>price_m = price', size_om = size', trader_m = sender, isLong_om = isLong',
                    isFilled_m = False, timestamp_om = now\<rparr>]\<rparr>;
          orderId = length (orderBook_m s1) - 1;
          s2 = emit_m (OrderPlaced sender orderId isLong') s1
      in case matchOrders_m s2 orderId of
           Inl e \<Rightarrow> Inl e
         | Inr s3 \<Rightarrow> Inr (orderId, s3))"

definition updateOraclePrice_m :: "mock \<Rightarrow> address \<Rightarrow> nat \<Rightarrow> uint256 \<Rightarrow> error + mock" where
  "updateOraclePrice_m s sender now encNewPrice =
     (if sender \<noteq> admin_m s then Inl Only_admin
      else Inr (emit_m (PriceUpdated now) (s\<lparr>oraclePrice := encNewPrice\<rparr>)))"

definition getOrderBookSize_m :: "mock \<Rightarrow> nat" where
  "getOrderBookSize_m s = length (orderBook_m s)"

section \<open>The scenarios of the specification\<close>

text \<open>
  The admin is account 0, the trader account 2, a third party account 3. Scenario A: the admin
  sets the oracle price to 100, the trader deposits 1000 and opens a long position of size 10 at
  leverage 5 (at time 7). Scenario B: the admin then sets the price to 120 and the trader closes
  the position. Scenario L: instead, account 3 liquidates the position of scenario A.
  Scenario C: a buy order (price 50, size 5), then a sell order (price 40, size 5).
  Scenario D: a buy order at price 40, then a sell order at price 50.
\<close>

definition scenario0 :: dex where
  "scenario0 = deposit (projr (updateOraclePrice (constructor 0) 0 1 100)) 2 1000"

definition scenarioA_id :: bytes32 where
  "scenarioA_id = Keccak256 2 7 10"

definition scenarioA :: dex where
  "scenarioA = snd (projr (openPosition scenario0 2 7 10 5 True 0 0))"

definition scenarioA120 :: dex where
  "scenarioA120 = projr (updateOraclePrice scenarioA 0 8 120)"

text \<open>
  Scenario R: the trader closes the position of scenario A and, in the same block (time 7),
  opens a position of the same size again; then closes it.
\<close>

definition scenarioA_closed :: dex where
  "scenarioA_closed = projr (closePosition scenarioA 2 scenarioA_id)"

definition scenarioR :: dex where
  "scenarioR = snd (projr (openPosition scenarioA_closed 2 7 10 5 True 0 0))"

definition scenarioR_closed :: dex where
  "scenarioR_closed = projr (closePosition scenarioR 2 scenarioA_id)"

definition scenarioA80 :: dex where
  "scenarioA80 = projr (updateOraclePrice scenarioA 0 8 80)"

definition scenarioB :: dex where
  "scenarioB = projr (closePosition scenarioA120 2 scenarioA_id)"

definition scenarioL :: dex where
  "scenarioL = projr (liquidate scenarioA 3 2 scenarioA_id)"


definition scenarioLS :: dex where
  "scenarioLS = projr (liquidate scenarioA 2 2 scenarioA_id)"

definition scenarioC1 :: dex where
  "scenarioC1 = snd (projr (placeOrder (constructor 0) 2 5 50 5 True))"

definition scenarioC :: dex where
  "scenarioC = snd (projr (placeOrder scenarioC1 3 6 40 5 False))"

definition scenarioD1 :: dex where
  "scenarioD1 = snd (projr (placeOrder (constructor 0) 2 5 40 5 True))"

definition scenarioD :: dex where
  "scenarioD = snd (projr (placeOrder scenarioD1 3 6 50 5 False))"

text \<open>
  Scenario S: as scenario A, with a stop loss at 90 and a take profit at 150 (opened at time 9);
  scenario X: account 3 then calls \<open>executeStopLossTakeProfit\<close> on that position.
\<close>

definition scenarioS_id :: bytes32 where
  "scenarioS_id = Keccak256 2 9 10"

definition scenarioS :: dex where
  "scenarioS = snd (projr (openPosition scenario0 2 9 10 5 True 90 150))"

definition scenarioX :: dex where
  "scenarioX = projr (executeStopLossTakeProfit scenarioS 3 2 scenarioS_id)"

text \<open>The same scenarios on the mock.\<close>

definition scenario0_m :: mock where
  "scenario0_m = projr (deposit_m (projr (updateOraclePrice_m (constructor_m 0) 0 1 100)) 2 1000)"

definition scenarioA_m :: mock where
  "scenarioA_m = snd (projr (openPosition_m scenario0_m 2 7 10 5 True))"

definition scenarioA120_m :: mock where
  "scenarioA120_m = projr (updateOraclePrice_m scenarioA_m 0 8 120)"

definition scenarioB_m :: mock where
  "scenarioB_m = projr (closePosition_m scenarioA120_m 2 scenarioA_id)"

definition scenarioA_closed_m :: mock where
  "scenarioA_closed_m = projr (closePosition_m scenarioA_m 2 scenarioA_id)"

definition scenarioR_m :: mock where
  "scenarioR_m = snd (projr (openPosition_m scenarioA_closed_m 2 7 10 5 True))"

definition scenarioR_closed_m :: mock where
  "scenarioR_closed_m = projr (closePosition_m scenarioR_m 2 scenarioA_id)"

definition scenarioA80_m :: mock where
  "scenarioA80_m = projr (updateOraclePrice_m scenarioA_m 0 8 80)"

definition scenarioC1_m :: mock where
  "scenarioC1_m = snd (projr (placeOrder_m (constructor_m 0) 2 5 50 5 True))"

definition scenarioC_m :: mock where
  "scenarioC_m = snd (projr (placeOrder_m scenarioC1_m 3 6 40 5 False))"

definition scenarioD1_m :: mock where
  "scenarioD1_m = snd (projr (placeOrder_m (constructor_m 0) 2 5 40 5 True))"

definition scenarioD_m :: mock where
  "scenarioD_m = snd (projr (placeOrder_m scenarioD1_m 3 6 50 5 False))"

section \<open>Basic facts about the operations of ConfidentialPerpDEX\<close>

lemma emit_sel [simp]:
  "encryptedBalances (emit e s) = encryptedBalances s"
  "positions (emit e s) = positions s"
  "userPositionIds (emit e s) = userPositionIds s"
  "orderBook (emit e s) = orderBook s"
  "encryptedOraclePrice (emit e s) = encryptedOraclePrice s"
  "liquidationThreshold (emit e s) = liquidationThreshold s"
  "fundingRate (emit e s) = fundingRate s"
  "admin (emit e s) = admin s"
  "events (emit e s) = events s @ [e]"
  by (simp_all add: emit_def)

lemma setPosition_sel [simp]:
  "encryptedBalances (setPosition a pid p s) = encryptedBalances s"
  "positions (setPosition a pid p s) = (positions s)(a := (positions s a)(pid := p))"
  "userPositionIds (setPosition a pid p s) = userPositionIds s"
  "orderBook (setPosition a pid p s) = orderBook s"
  "encryptedOraclePrice (setPosition a pid p s) = encryptedOraclePrice s"
  "liquidationThreshold (setPosition a pid p s) = liquidationThreshold s"
  "fundingRate (setPosition a pid p s) = fundingRate s"
  "admin (setPosition a pid p s) = admin s"
  "events (setPosition a pid p s) = events s"
  by (simp_all add: setPosition_def)

lemma setBalance_sel [simp]:
  "encryptedBalances (setBalance a v s) = (encryptedBalances s)(a := Some v)"
  "positions (setBalance a v s) = positions s"
  "userPositionIds (setBalance a v s) = userPositionIds s"
  "orderBook (setBalance a v s) = orderBook s"
  "encryptedOraclePrice (setBalance a v s) = encryptedOraclePrice s"
  "liquidationThreshold (setBalance a v s) = liquidationThreshold s"
  "fundingRate (setBalance a v s) = fundingRate s"
  "admin (setBalance a v s) = admin s"
  "events (setBalance a v s) = events s"
  by (simp_all add: setBalance_def)

lemma calculatePnL_open:
  "isOpen (positions s t p) \<Longrightarrow>
   calculatePnL s t p =
     Inr ((if isLong (positions s t p)
           then encryptedOraclePrice s - entryPrice (positions s t p)
           else entryPrice (positions s t p) - encryptedOraclePrice s) * size_p (positions s t p))"
  by (simp add: calculatePnL_def Let_def TFHE_sub_def TFHE_mul_def)

lemma calculatePnL_closed:
  "\<not> isOpen (positions s t p) \<Longrightarrow> calculatePnL s t p = Inl Position_not_open"
  by (simp add: calculatePnL_def)

lemma closePosition_open:
  assumes "isOpen (positions s a p)" and "calculatePnL s a p = Inr pnl"
  shows "closePosition s a p =
     Inr (emit (PositionClosed a p)
            (setPosition a p ((positions s a p)\<lparr>isOpen := False\<rparr>)
               (setBalance a (operand (encryptedBalances s a) + (collateral (positions s a p) + pnl)) s)))"
  using assms by (simp add: closePosition_def Let_def TFHE_add_def)

lemma closePosition_closed:
  "\<not> isOpen (positions s a p) \<Longrightarrow> closePosition s a p = Inl Position_not_open"
  by (simp add: closePosition_def)

lemma liquidate_open:
  assumes "isOpen (positions s t p)"
  shows "liquidate s c t p =
     Inr (emit (LiquidationTriggered t p)
            (setBalance c (operand (encryptedBalances s c) + collateral (positions s t p) div 10)
               (setPosition t p ((positions s t p)\<lparr>isOpen := False\<rparr>) s)))"
  using assms by (simp add: liquidate_def Let_def TFHE_add_def TFHE_div_def)

lemma liquidate_closed:
  "\<not> isOpen (positions s t p) \<Longrightarrow> liquidate s c t p = Inl Position_not_open"
  by (simp add: liquidate_def)

lemma executeStopLossTakeProfit_open:
  assumes "isOpen (positions s t p)" and "calculatePnL s t p = Inr pnl"
  shows "executeStopLossTakeProfit s c t p =
     Inr (emit (PositionClosed t p)
            (setPosition t p ((positions s t p)\<lparr>isOpen := False\<rparr>)
               (setBalance t (operand (encryptedBalances s t) + (collateral (positions s t p) + pnl)) s)))"
  using assms by (simp add: executeStopLossTakeProfit_def checkStopLossTakeProfit_def Let_def TFHE_add_def)

lemma executeStopLossTakeProfit_closed:
  "\<not> isOpen (positions s t p) \<Longrightarrow> executeStopLossTakeProfit s c t p = Inl Position_not_open"
  by (simp add: executeStopLossTakeProfit_def)

lemma updateStopLossTakeProfit_open:
  assumes "isOpen (positions s a p)"
  shows "updateStopLossTakeProfit s a p sl tp =
     Inr (emit (StopLossTakeProfitUpdated a p)
            (setPosition a p ((positions s a p)\<lparr>stopLoss := sl, takeProfit := tp\<rparr>) s))"
  using assms by (simp add: updateStopLossTakeProfit_def Let_def setPosition_def)

lemma updateStopLossTakeProfit_closed:
  "\<not> isOpen (positions s a p) \<Longrightarrow> updateStopLossTakeProfit s a p sl tp = Inl Position_not_open"
  by (simp add: updateStopLossTakeProfit_def)

lemma ucast_leverage_zero: "(ucast (lev :: 8 word) :: 64 word) = 0 \<longleftrightarrow> lev = 0"
proof
  assume "(ucast lev :: 64 word) = 0"
  then have "unat (ucast lev :: 64 word) = 0" by simp
  then have "take_bit 64 (unat lev) = 0" by (simp add: unsigned_ucast_eq)
  moreover have "unat lev < 2 ^ 64"
    using unsigned_less [of lev, where ?'a = nat] by simp
  ultimately have "unat lev = 0" by (simp add: take_bit_nat_eq_self)
  then show "lev = 0" by (simp add: unat_0_iff)
next
  assume "lev = 0" then show "(ucast lev :: 64 word) = 0" by simp
qed

lemma openPosition_ok:
  assumes "lev \<noteq> 0"
  shows "openPosition s a now sz lev l sl tp =
     Inr (Keccak256 a now (unat sz),
          emit (PositionOpened a (Keccak256 a now (unat sz)) l)
            ((setPosition a (Keccak256 a now (unat sz))
               \<lparr>size_p = sz, entryPrice = encryptedOraclePrice s,
                collateral = (sz * encryptedOraclePrice s) div ucast lev, leverage = lev,
                isLong = l, timestamp = now, isOpen = True, stopLoss = sl, takeProfit = tp\<rparr>
               (setBalance a (operand (encryptedBalances s a) - (sz * encryptedOraclePrice s) div ucast lev) s))
             \<lparr>userPositionIds := (userPositionIds s)(a := userPositionIds s a @ [Keccak256 a now (unat sz)])\<rparr>))"
  using assms by (simp add: openPosition_def Let_def TFHE_div_def TFHE_mul_def TFHE_sub_def ucast_leverage_zero)


lemma openPosition_zero_leverage:
  "openPosition s a now sz 0 l sl tp = Inl Division_by_zero"
  by (simp add: openPosition_def Let_def TFHE_div_def)

lemma updateOraclePrice_admin:
  "updateOraclePrice s (admin s) now v = Inr (emit (PriceUpdated now) (s\<lparr>encryptedOraclePrice := v\<rparr>))"
  by (simp add: updateOraclePrice_def)

lemma deposit_balance:
  "encryptedBalances (deposit s a v) = (encryptedBalances s)(a := Some (operand (encryptedBalances s a) + v))"
  by (cases "encryptedBalances s a") (simp_all add: deposit_def TFHE_isInitialized_def TFHE_add_def)

lemma deposit_frame [simp]:
  "positions (deposit s a v) = positions s"
  "orderBook (deposit s a v) = orderBook s"
  "encryptedOraclePrice (deposit s a v) = encryptedOraclePrice s"
  "admin (deposit s a v) = admin s"
  "events (deposit s a v) = events s @ [BalanceDeposited a 0]"
  by (simp_all add: deposit_def Let_def)

section \<open>The states of the scenarios\<close>

lemma scenario0_facts:
  "encryptedBalances scenario0 2 = Some 1000"
  "encryptedBalances scenario0 3 = None"
  "encryptedOraclePrice scenario0 = 100"
  "admin scenario0 = 0"
  "positions scenario0 = (\<lambda>_ _. zeroPosition)"
  by (simp_all add: scenario0_def deposit_balance updateOraclePrice_def constructor_def)

lemma scenarioA_open:
  "openPosition scenario0 2 7 10 5 True 0 0 = Inr (scenarioA_id, scenarioA)"
  by (simp add: scenarioA_def scenarioA_id_def openPosition_ok)

lemma scenarioA_facts:
  "encryptedBalances scenarioA 2 = Some 800"
  "encryptedBalances scenarioA 3 = None"
  "encryptedOraclePrice scenarioA = 100"
  "admin scenarioA = 0"
  "positions scenarioA 2 scenarioA_id = \<lparr>size_p = 10, entryPrice = 100, collateral = 200, leverage = 5,
     isLong = True, timestamp = 7, isOpen = True, stopLoss = 0, takeProfit = 0\<rparr>"
  by (simp_all add: scenarioA_def scenarioA_id_def openPosition_ok scenario0_facts)


lemma scenarioA120_update:
  "updateOraclePrice scenarioA 0 8 120 = Inr scenarioA120"
  by (simp add: scenarioA120_def updateOraclePrice_def scenarioA_facts)

lemma scenarioA120_facts:
  "encryptedBalances scenarioA120 2 = Some 800"
  "encryptedOraclePrice scenarioA120 = 120"
  "positions scenarioA120 2 scenarioA_id = \<lparr>size_p = 10, entryPrice = 100, collateral = 200, leverage = 5,
     isLong = True, timestamp = 7, isOpen = True, stopLoss = 0, takeProfit = 0\<rparr>"
  by (simp_all add: scenarioA120_def updateOraclePrice_def scenarioA_facts)

lemma scenarioA120_pnl: "calculatePnL scenarioA120 2 scenarioA_id = Inr 200"
  by (simp add: calculatePnL_open scenarioA120_facts)

lemma scenarioB_close:
  "closePosition scenarioA120 2 scenarioA_id = Inr scenarioB"
  by (simp add: scenarioB_def closePosition_open [OF _ scenarioA120_pnl] scenarioA120_facts)

lemma scenarioB_facts:
  "encryptedBalances scenarioB 2 = Some 1200"
  "\<not> isOpen (positions scenarioB 2 scenarioA_id)"
  by (simp_all add: scenarioB_def closePosition_open [OF _ scenarioA120_pnl] scenarioA120_facts)

lemma scenarioL_liquidate:
  "liquidate scenarioA 3 2 scenarioA_id = Inr scenarioL"
  by (simp add: scenarioL_def liquidate_open scenarioA_facts)

lemma scenarioL_facts:
  "encryptedBalances scenarioL 2 = Some 800"
  "encryptedBalances scenarioL 3 = Some 20"
  "\<not> isOpen (positions scenarioL 2 scenarioA_id)"
  by (simp_all add: scenarioL_def liquidate_open scenarioA_facts)

section \<open>Profit and loss\<close>

text \<open>
  Claim C4. For every open position, \<open>calculatePnL\<close> returns
  \<open>(oraclePrice - entryPrice) * size\<close> when the position is long and
  \<open>(entryPrice - oraclePrice) * size\<close> when it is short, in the arithmetic of \<open>euint64\<close>
  (modulo \<open>2 ^ 64\<close>). Its result is determined by the oracle price and the stored position
  alone: on any two states that agree on these it returns the same. It is a view function: it
  returns a value and no state.
\<close>

theorem calculatePnL_formula:
  "(isOpen (positions s t p) \<longrightarrow>
      calculatePnL s t p =
        Inr (if isLong (positions s t p)
             then (encryptedOraclePrice s - entryPrice (positions s t p)) * size_p (positions s t p)
             else (entryPrice (positions s t p) - encryptedOraclePrice s) * size_p (positions s t p)))
   \<and> (positions s t p = positions s' t' p' \<and> encryptedOraclePrice s = encryptedOraclePrice s'
        \<longrightarrow> calculatePnL s t p = calculatePnL s' t' p')"
  by (simp add: calculatePnL_def Let_def TFHE_sub_def TFHE_mul_def)

theorem calculatePnL_formula_witness:
  "isOpen (positions scenarioA120 2 scenarioA_id) \<and> isLong (positions scenarioA120 2 scenarioA_id)
   \<and> calculatePnL scenarioA120 2 scenarioA_id = Inr ((120 - 100) * 10)
   \<and> positions scenarioA120 2 scenarioA_id = positions scenarioA 2 scenarioA_id
   \<and> encryptedOraclePrice (scenarioA\<lparr>encryptedOraclePrice := 120\<rparr>) = encryptedOraclePrice scenarioA120
   \<and> calculatePnL scenarioA120 2 scenarioA_id
       = calculatePnL (scenarioA\<lparr>encryptedOraclePrice := 120\<rparr>) 2 scenarioA_id"
  using calculatePnL_formula [of scenarioA120 2 scenarioA_id "scenarioA\<lparr>encryptedOraclePrice := 120\<rparr>" 2 scenarioA_id]
  by (auto simp add: scenarioA120_facts scenarioA_facts)


lemma calculatePnL_total:
  "isOpen (positions s t p) \<Longrightarrow> \<exists>pnl. calculatePnL s t p = Inr pnl"
  by (simp add: calculatePnL_open)

section \<open>Closing a position\<close>

text \<open>
  Claim C5. For every open position, \<open>closePosition\<close> called by the owner succeeds, credits
  exactly \<open>collateral + calculatePnL\<close> to the owner's balance, sets \<open>isOpen\<close> to false and
  emits \<open>PositionClosed\<close>. For the position of scenario A, once the oracle price is 120, the
  profit is 200, the returned amount 400 and the final balance 1200.
\<close>

theorem closePosition_credits_collateral_and_pnl:
  "(isOpen (positions s a p) \<longrightarrow>
      (\<exists>pnl s'. calculatePnL s a p = Inr pnl \<and> closePosition s a p = Inr s'
         \<and> encryptedBalances s' =
             (encryptedBalances s)(a := Some (operand (encryptedBalances s a)
                                              + (collateral (positions s a p) + pnl)))
         \<and> positions s' =
             (positions s)(a := (positions s a)(p := (positions s a p)\<lparr>isOpen := False\<rparr>))
         \<and> events s' = events s @ [PositionClosed a p]))
   \<and> openPosition scenario0 2 7 10 5 True 0 0 = Inr (scenarioA_id, scenarioA)
   \<and> updateOraclePrice scenarioA 0 8 120 = Inr scenarioA120
   \<and> calculatePnL scenarioA120 2 scenarioA_id = Inr 200
   \<and> collateral (positions scenarioA120 2 scenarioA_id) + 200 = 400
   \<and> encryptedBalances scenarioA120 2 = Some 800
   \<and> closePosition scenarioA120 2 scenarioA_id = Inr scenarioB
   \<and> encryptedBalances scenarioB 2 = Some 1200
   \<and> \<not> isOpen (positions scenarioB 2 scenarioA_id)"
proof -
  have general: "isOpen (positions s a p) \<longrightarrow>
      (\<exists>pnl s'. calculatePnL s a p = Inr pnl \<and> closePosition s a p = Inr s'
         \<and> encryptedBalances s' =
             (encryptedBalances s)(a := Some (operand (encryptedBalances s a)
                                              + (collateral (positions s a p) + pnl)))
         \<and> positions s' =
             (positions s)(a := (positions s a)(p := (positions s a p)\<lparr>isOpen := False\<rparr>))
         \<and> events s' = events s @ [PositionClosed a p])"
  proof
    assume op: "isOpen (positions s a p)"
    then obtain pnl where pnl: "calculatePnL s a p = Inr pnl"
      using calculatePnL_total by blast
    show "\<exists>pnl s'. calculatePnL s a p = Inr pnl \<and> closePosition s a p = Inr s'
         \<and> encryptedBalances s' =
             (encryptedBalances s)(a := Some (operand (encryptedBalances s a)
                                              + (collateral (positions s a p) + pnl)))
         \<and> positions s' =
             (positions s)(a := (positions s a)(p := (positions s a p)\<lparr>isOpen := False\<rparr>))
         \<and> events s' = events s @ [PositionClosed a p]"
      using pnl by (simp add: closePosition_open [OF op pnl])
  qed
  have scen: "collateral (positions scenarioA120 2 scenarioA_id) + 200 = 400"
    by (simp add: scenarioA120_facts)
  show ?thesis
    using general scen scenarioA_open scenarioA120_update scenarioA120_pnl scenarioB_close
      scenarioA120_facts(1) scenarioB_facts
    by blast
qed

theorem closePosition_credits_collateral_and_pnl_witness:
  "isOpen (positions scenarioA120 2 scenarioA_id)
   \<and> closePosition scenarioA120 2 scenarioA_id = Inr scenarioB
   \<and> encryptedBalances scenarioB 2 = Some (800 + (200 + 200))
   \<and> events scenarioB = events scenarioA120 @ [PositionClosed 2 scenarioA_id]"
proof -
  have op: "isOpen (positions scenarioA120 2 scenarioA_id)"
    by (simp add: scenarioA120_facts)
  from closePosition_credits_collateral_and_pnl [of scenarioA120 2 scenarioA_id] op
  obtain pnl s' where h: "calculatePnL scenarioA120 2 scenarioA_id = Inr pnl"
      "closePosition scenarioA120 2 scenarioA_id = Inr s'"
      "encryptedBalances s' = (encryptedBalances scenarioA120)(2 := Some (operand (encryptedBalances scenarioA120 2)
           + (collateral (positions scenarioA120 2 scenarioA_id) + pnl)))"
      "events s' = events scenarioA120 @ [PositionClosed 2 scenarioA_id]"
    by blast
  from h(1) have "pnl = 200" by (simp add: scenarioA120_pnl)
  moreover from h(2) have "s' = scenarioB" by (simp add: scenarioB_def)
  ultimately show ?thesis using op h by (simp add: scenarioA120_facts)
qed

section \<open>Opening a position\<close>

text \<open>
  Claim C6. For every \<open>openPosition\<close> call with size \<open>sz\<close>, plaintext leverage \<open>lev > 0\<close> and
  oracle price \<open>p\<close>, the required collateral is \<open>(sz * p) div lev\<close> (in \<open>euint64\<close> arithmetic); the
  call succeeds, debits the caller's balance by exactly that amount, stores a new open position
  whose entry price is the oracle price and whose collateral is the required collateral, changes
  no other position, and returns the id of the new position. In scenario A (deposit 1000, size
  10, leverage 5, price 100) the collateral is 200 and the balance left is 800.
\<close>
theorem openPosition_locks_required_collateral:
  "(lev \<noteq> 0 \<longrightarrow>
      (\<exists>s'. openPosition s a now sz lev l sl tp = Inr (Keccak256 a now (unat sz), s')
         \<and> encryptedBalances s' =
             (encryptedBalances s)(a := Some (operand (encryptedBalances s a)
                                              - (sz * encryptedOraclePrice s) div ucast lev))
         \<and> positions s' a (Keccak256 a now (unat sz)) =
             \<lparr>size_p = sz, entryPrice = encryptedOraclePrice s,
              collateral = (sz * encryptedOraclePrice s) div ucast lev, leverage = lev,
              isLong = l, timestamp = now, isOpen = True, stopLoss = sl, takeProfit = tp\<rparr>
         \<and> (\<forall>b q. (b, q) \<noteq> (a, Keccak256 a now (unat sz)) \<longrightarrow> positions s' b q = positions s b q)
         \<and> userPositionIds s' a = userPositionIds s a @ [Keccak256 a now (unat sz)]
         \<and> events s' = events s @ [PositionOpened a (Keccak256 a now (unat sz)) l]))
   \<and> encryptedBalances scenario0 2 = Some 1000
   \<and> encryptedOraclePrice scenario0 = 100
   \<and> openPosition scenario0 2 7 10 5 True 0 0 = Inr (scenarioA_id, scenarioA)
   \<and> collateral (positions scenarioA 2 scenarioA_id) = 200
   \<and> isOpen (positions scenarioA 2 scenarioA_id)
   \<and> encryptedBalances scenarioA 2 = Some 800"
proof -
  have general: "lev \<noteq> 0 \<longrightarrow>
      (\<exists>s'. openPosition s a now sz lev l sl tp = Inr (Keccak256 a now (unat sz), s')
         \<and> encryptedBalances s' =
             (encryptedBalances s)(a := Some (operand (encryptedBalances s a)
                                              - (sz * encryptedOraclePrice s) div ucast lev))
         \<and> positions s' a (Keccak256 a now (unat sz)) =
             \<lparr>size_p = sz, entryPrice = encryptedOraclePrice s,
              collateral = (sz * encryptedOraclePrice s) div ucast lev, leverage = lev,
              isLong = l, timestamp = now, isOpen = True, stopLoss = sl, takeProfit = tp\<rparr>
         \<and> (\<forall>b q. (b, q) \<noteq> (a, Keccak256 a now (unat sz)) \<longrightarrow> positions s' b q = positions s b q)
         \<and> userPositionIds s' a = userPositionIds s a @ [Keccak256 a now (unat sz)]
         \<and> events s' = events s @ [PositionOpened a (Keccak256 a now (unat sz)) l])"
    by (simp add: openPosition_ok)
  show ?thesis
    using general scenario0_facts(1,3) scenarioA_open scenarioA_facts(1)
    by (simp add: scenarioA_facts(5))
qed

theorem openPosition_locks_required_collateral_witness:
  "(5 :: 8 word) \<noteq> 0
   \<and> openPosition scenario0 2 7 10 5 True 0 0 = Inr (Keccak256 2 7 10, scenarioA)
   \<and> encryptedBalances scenarioA 2 = Some (1000 - (10 * 100) div 5)
   \<and> collateral (positions scenarioA 2 (Keccak256 2 7 10)) = (10 * 100) div 5"
proof -
  have lev: "(5 :: 8 word) \<noteq> 0" by simp
  from openPosition_locks_required_collateral [of 5 scenario0 2 7 10 True 0 0] lev
  obtain s' where h: "openPosition scenario0 2 7 10 5 True 0 0 = Inr (Keccak256 2 7 (unat (10 :: 64 word)), s')"
    "encryptedBalances s' = (encryptedBalances scenario0)(2 := Some (operand (encryptedBalances scenario0 2)
         - (10 * encryptedOraclePrice scenario0) div ucast (5 :: 8 word)))"
    "positions s' 2 (Keccak256 2 7 (unat (10 :: 64 word))) =
             \<lparr>size_p = 10, entryPrice = encryptedOraclePrice scenario0,
              collateral = (10 * encryptedOraclePrice scenario0) div ucast (5 :: 8 word), leverage = 5,
              isLong = True, timestamp = 7, isOpen = True, stopLoss = 0, takeProfit = 0\<rparr>"
    by blast
  from h(1) have "s' = scenarioA" by (simp add: scenarioA_def)
  then show ?thesis using h lev by (simp add: scenario0_facts)
qed

section \<open>Closing a position that is not open\<close>

lemma closePosition_Inr_closes:
  "closePosition s a p = Inr s' \<Longrightarrow> \<not> isOpen (positions s' a p)"
proof (cases "isOpen (positions s a p)")
  case True
  then obtain pnl where "calculatePnL s a p = Inr pnl"
    using calculatePnL_total by blast
  with True show "closePosition s a p = Inr s' \<Longrightarrow> \<not> isOpen (positions s' a p)"
    by (auto simp add: closePosition_open)
next
  case False
  then show "closePosition s a p = Inr s' \<Longrightarrow> \<not> isOpen (positions s' a p)"
    by (simp add: closePosition_closed)
qed

text \<open>
  Claim C7. \<open>closePosition\<close> on a position that is not open fails with the revert reason
  \<open>Position not open\<close>, which is an \<open>InvalidStateError\<close>, and the transaction leaves the state
  as it was. In particular a second \<open>closePosition\<close> after a successful one on the same id
  fails so.
\<close>

theorem closePosition_on_closed_position_fails:
  "(\<not> isOpen (positions s a p) \<longrightarrow>
      closePosition s a p = Inl Position_not_open \<and> transact s (ClosePosition a p) = s)
   \<and> (\<forall>s'. closePosition s a p = Inr s' \<longrightarrow>
         closePosition s' a p = Inl Position_not_open \<and> transact s' (ClosePosition a p) = s')
   \<and> errorClass Position_not_open = Some InvalidStateError"
  by (simp add: closePosition_closed closePosition_Inr_closes transact_def)

theorem closePosition_on_closed_position_fails_witness:
  "closePosition scenarioA120 2 scenarioA_id = Inr scenarioB
   \<and> \<not> isOpen (positions scenarioB 2 scenarioA_id)
   \<and> closePosition scenarioB 2 scenarioA_id = Inl Position_not_open
   \<and> transact scenarioB (ClosePosition 2 scenarioA_id) = scenarioB"
  using closePosition_on_closed_position_fails [of scenarioA120 2 scenarioA_id]
    closePosition_on_closed_position_fails [of scenarioB 2 scenarioA_id]
  by (simp add: scenarioB_close scenarioB_facts)

section \<open>Liquidation\<close>

lemma checkLiquidation_total:
  "isOpen (positions s t p) \<Longrightarrow> \<exists>b. checkLiquidation s t p = Inr b"
  by (simp add: checkLiquidation_def calculatePnL_open Let_def)



section \<open>Executing the brackets\<close>

lemma checkStopLossTakeProfit_total:
  "isOpen (positions s t p) \<Longrightarrow> \<exists>sl tp. checkStopLossTakeProfit s t p = Inr (sl, tp)"
  by (simp add: checkStopLossTakeProfit_def Let_def)

lemma scenarioS_open:
  "openPosition scenario0 2 9 10 5 True 90 150 = Inr (scenarioS_id, scenarioS)"
  by (simp add: scenarioS_def scenarioS_id_def openPosition_ok)

lemma scenarioS_facts:
  "encryptedBalances scenarioS 2 = Some 800"
  "encryptedBalances scenarioS 3 = None"
  "encryptedOraclePrice scenarioS = 100"
  "positions scenarioS 2 scenarioS_id = \<lparr>size_p = 10, entryPrice = 100, collateral = 200, leverage = 5,
     isLong = True, timestamp = 9, isOpen = True, stopLoss = 90, takeProfit = 150\<rparr>"
  by (simp_all add: scenarioS_def scenarioS_id_def openPosition_ok scenario0_facts)

lemma scenarioS_triggers:
  "checkStopLossTakeProfit scenarioS 2 scenarioS_id = Inr (False, False)"
  by (simp add: checkStopLossTakeProfit_def Let_def scenarioS_facts TFHE_lt_def TFHE_gt_def)

lemma scenarioS_pnl: "calculatePnL scenarioS 2 scenarioS_id = Inr 0"
  by (simp add: calculatePnL_open scenarioS_facts)

lemma scenarioX_execute:
  "executeStopLossTakeProfit scenarioS 3 2 scenarioS_id = Inr scenarioX"
  by (simp add: scenarioX_def executeStopLossTakeProfit_open [OF _ scenarioS_pnl] scenarioS_facts)

text \<open>
  Claim C10. For every open position and every caller, \<open>executeStopLossTakeProfit\<close> succeeds,
  closes the position and credits \<open>collateral + calculatePnL\<close> to the trader's balance. The two
  trigger booleans of \<open>checkStopLossTakeProfit\<close> have a value, and the state produced does not
  depend on it: it is the same when the stop loss and the take profit of the position are
  replaced by any other values (up to these two fields). A caller other than the trader
  receives nothing.
\<close>

theorem executeStopLossTakeProfit_closes_unconditionally:
  "isOpen (positions s t p) \<longrightarrow>
     (\<exists>slTriggered tpTriggered pnl s'.
        checkStopLossTakeProfit s t p = Inr (slTriggered, tpTriggered)
        \<and> calculatePnL s t p = Inr pnl
        \<and> executeStopLossTakeProfit s c t p = Inr s'
        \<and> positions s' =
            (positions s)(t := (positions s t)(p := (positions s t p)\<lparr>isOpen := False\<rparr>))
        \<and> encryptedBalances s' =
            (encryptedBalances s)(t := Some (operand (encryptedBalances s t)
                                             + (collateral (positions s t p) + pnl)))
        \<and> (c \<noteq> t \<longrightarrow> encryptedBalances s' c = encryptedBalances s c)
        \<and> events s' = events s @ [PositionClosed t p]
        \<and> (\<forall>sl tp. executeStopLossTakeProfit
                       (setPosition t p ((positions s t p)\<lparr>stopLoss := sl, takeProfit := tp\<rparr>) s) c t p
                    = Inr (setPosition t p
                            ((positions s' t p)\<lparr>stopLoss := sl, takeProfit := tp\<rparr>) s')))"
proof
  assume op: "isOpen (positions s t p)"
  obtain sl0 tp0 where trig: "checkStopLossTakeProfit s t p = Inr (sl0, tp0)"
    using checkStopLossTakeProfit_total [OF op] by blast
  obtain pnl where pnl: "calculatePnL s t p = Inr pnl"
    using calculatePnL_total [OF op] by blast
  let ?s' = "emit (PositionClosed t p)
            (setPosition t p ((positions s t p)\<lparr>isOpen := False\<rparr>)
               (setBalance t (operand (encryptedBalances s t) + (collateral (positions s t p) + pnl)) s))"
  have ex: "executeStopLossTakeProfit s c t p = Inr ?s'"
    by (rule executeStopLossTakeProfit_open [OF op pnl])
  have indep: "executeStopLossTakeProfit
                 (setPosition t p ((positions s t p)\<lparr>stopLoss := sl, takeProfit := tp\<rparr>) s) c t p
               = Inr (setPosition t p ((positions ?s' t p)\<lparr>stopLoss := sl, takeProfit := tp\<rparr>) ?s')"
    for sl tp
  proof -
    let ?s2 = "setPosition t p ((positions s t p)\<lparr>stopLoss := sl, takeProfit := tp\<rparr>) s"
    have op2: "isOpen (positions ?s2 t p)" using op by simp
    have pnl2: "calculatePnL ?s2 t p = Inr pnl"
      using pnl op by (simp add: calculatePnL_open split: if_splits)
    have reorder: "(positions s t p)\<lparr>stopLoss := sl, takeProfit := tp, isOpen := False\<rparr>
        = (positions s t p)\<lparr>isOpen := False, stopLoss := sl, takeProfit := tp\<rparr>"
      by (cases "positions s t p") simp
    show ?thesis
      by (simp add: executeStopLossTakeProfit_open [OF op2 pnl2])
         (rule dex.equality; simp add: emit_def setPosition_def setBalance_def reorder)
  qed
  show "\<exists>slTriggered tpTriggered pnl s'.
        checkStopLossTakeProfit s t p = Inr (slTriggered, tpTriggered)
        \<and> calculatePnL s t p = Inr pnl
        \<and> executeStopLossTakeProfit s c t p = Inr s'
        \<and> positions s' =
            (positions s)(t := (positions s t)(p := (positions s t p)\<lparr>isOpen := False\<rparr>))
        \<and> encryptedBalances s' =
            (encryptedBalances s)(t := Some (operand (encryptedBalances s t)
                                             + (collateral (positions s t p) + pnl)))
        \<and> (c \<noteq> t \<longrightarrow> encryptedBalances s' c = encryptedBalances s c)
        \<and> events s' = events s @ [PositionClosed t p]
        \<and> (\<forall>sl tp. executeStopLossTakeProfit
                       (setPosition t p ((positions s t p)\<lparr>stopLoss := sl, takeProfit := tp\<rparr>) s) c t p
                    = Inr (setPosition t p
                            ((positions s' t p)\<lparr>stopLoss := sl, takeProfit := tp\<rparr>) s'))"
    apply (rule exI [of _ sl0], rule exI [of _ tp0], rule exI [of _ pnl], rule exI [of _ ?s'])
    using trig pnl ex indep by simp
qed

theorem executeStopLossTakeProfit_closes_unconditionally_witness:
  "isOpen (positions scenarioS 2 scenarioS_id)
   \<and> checkStopLossTakeProfit scenarioS 2 scenarioS_id = Inr (False, False)
   \<and> executeStopLossTakeProfit scenarioS 3 2 scenarioS_id = Inr scenarioX
   \<and> \<not> isOpen (positions scenarioX 2 scenarioS_id)
   \<and> encryptedBalances scenarioX 2 = Some (800 + (200 + 0))
   \<and> encryptedBalances scenarioX 3 = encryptedBalances scenarioS 3"
proof -
  have op: "isOpen (positions scenarioS 2 scenarioS_id)"
    by (simp add: scenarioS_facts)
  from executeStopLossTakeProfit_closes_unconditionally [of scenarioS 2 scenarioS_id 3] op
  obtain pnl s' where h: "calculatePnL scenarioS 2 scenarioS_id = Inr pnl"
    "executeStopLossTakeProfit scenarioS 3 2 scenarioS_id = Inr s'"
    "positions s' = (positions scenarioS)(2 := (positions scenarioS 2)
        (scenarioS_id := (positions scenarioS 2 scenarioS_id)\<lparr>isOpen := False\<rparr>))"
    "encryptedBalances s' = (encryptedBalances scenarioS)(2 := Some (operand (encryptedBalances scenarioS 2)
         + (collateral (positions scenarioS 2 scenarioS_id) + pnl)))"
    "(3::nat) \<noteq> 2 \<longrightarrow> encryptedBalances s' 3 = encryptedBalances scenarioS 3"
    by blast
  from h(1) have "pnl = 0" by (simp add: scenarioS_pnl)
  moreover from h(2) have "s' = scenarioX" by (simp add: scenarioX_def)
  ultimately show ?thesis using h op scenarioS_triggers by (simp add: scenarioS_facts)
qed

section \<open>The matching pass\<close>

lemma matchOrders_loop_end:
  "length (orderBook s) \<le> k \<Longrightarrow> matchOrders_loop s n k = s"
  by (simp add: matchOrders_loop.simps [of s n k])

lemma matchOrders_loop_continue:
  assumes "k < length (orderBook s)"
    and "k = n \<or> isLong_o (orderBook s ! k) = isLong_o (orderBook s ! n)
         \<or> isFilled (orderBook s ! k) \<or> isFilled (orderBook s ! n)"
  shows "matchOrders_loop s n k = matchOrders_loop s n (Suc k)"
  using assms by (subst matchOrders_loop.simps) (auto simp add: Let_def)

lemma matchOrders_loop_match:
  assumes "k < length (orderBook s)" and "k \<noteq> n"
    and "isLong_o (orderBook s ! k) \<noteq> isLong_o (orderBook s ! n)"
    and "\<not> isFilled (orderBook s ! k)" and "\<not> isFilled (orderBook s ! n)"
  shows "matchOrders_loop s n k =
     emit (OrderMatched n k)
       (s\<lparr>orderBook := (orderBook s)[n := (orderBook s ! n)\<lparr>isFilled := True\<rparr>,
                                       k := (orderBook s ! k)\<lparr>isFilled := True\<rparr>]\<rparr>)"
  using assms by (subst matchOrders_loop.simps) (simp add: Let_def)

text \<open>The iterations that find nothing to match are skipped.\<close>

lemma matchOrders_loop_skip:
  assumes "k \<le> i" and "i \<le> length (orderBook s)"
    and "\<forall>j. k \<le> j \<and> j < i \<longrightarrow>
           j = n \<or> isLong_o (orderBook s ! j) = isLong_o (orderBook s ! n)
           \<or> isFilled (orderBook s ! j) \<or> isFilled (orderBook s ! n)"
  shows "matchOrders_loop s n k = matchOrders_loop s n i"
  using assms
proof (induction "i - k" arbitrary: k)
  case 0
  then show ?case by simp
next
  case (Suc d)
  then have lt: "k < i" by simp
  then have "k < length (orderBook s)" using Suc.prems by simp
  moreover have "k = n \<or> isLong_o (orderBook s ! k) = isLong_o (orderBook s ! n)
         \<or> isFilled (orderBook s ! k) \<or> isFilled (orderBook s ! n)"
    using Suc.prems lt by blast
  ultimately have "matchOrders_loop s n k = matchOrders_loop s n (Suc k)"
    by (rule matchOrders_loop_continue)
  moreover have "matchOrders_loop s n (Suc k) = matchOrders_loop s n i"
  proof (rule Suc.hyps(1))
    show "d = i - Suc k" using Suc.hyps(2) by simp
    show "Suc k \<le> i" using lt by simp
    show "i \<le> length (orderBook s)" by (rule Suc.prems(2))
    show "\<forall>j. Suc k \<le> j \<and> j < i \<longrightarrow>
           j = n \<or> isLong_o (orderBook s ! j) = isLong_o (orderBook s ! n)
           \<or> isFilled (orderBook s ! j) \<or> isFilled (orderBook s ! n)"
      using Suc.prems(3) by simp
  qed
  ultimately show ?case by simp
qed

lemma matchOrders_loop_frame:
  "positions (matchOrders_loop s n k) = positions s
   \<and> encryptedBalances (matchOrders_loop s n k) = encryptedBalances s
   \<and> admin (matchOrders_loop s n k) = admin s
   \<and> encryptedOraclePrice (matchOrders_loop s n k) = encryptedOraclePrice s
   \<and> length (orderBook (matchOrders_loop s n k)) = length (orderBook s)"
proof (induction s n k rule: matchOrders_loop.induct)
  case (1 s n k)
  show ?case
    by (subst (1 2 3 4 5) matchOrders_loop.simps) (use 1 in \<open>auto simp add: Let_def\<close>)
qed

lemma placeOrder_unfold:
  "placeOrder s a now pr sz l =
     Inr (length (orderBook s),
          matchOrders_loop
            (emit (OrderPlaced a (length (orderBook s)) l)
               (s\<lparr>orderBook := orderBook s @
                    [\<lparr>price = pr, size_o = sz, trader = a, isLong_o = l, isFilled = False,
                      timestamp_o = now\<rparr>]\<rparr>))
            (length (orderBook s)) 0)"
  by (simp add: placeOrder_def matchOrders_def Let_def)

lemma placeOrder_match:
  assumes i: "i < length (orderBook s)"
    and opp: "isLong_o (orderBook s ! i) \<noteq> l"
    and unf: "\<not> isFilled (orderBook s ! i)"
    and first: "\<forall>j<i. isLong_o (orderBook s ! j) = l \<or> isFilled (orderBook s ! j)"
  shows "placeOrder s a now pr sz l =
     Inr (length (orderBook s),
          s\<lparr>orderBook := (orderBook s)[i := (orderBook s ! i)\<lparr>isFilled := True\<rparr>]
                           @ [\<lparr>price = pr, size_o = sz, trader = a, isLong_o = l,
                               isFilled = True, timestamp_o = now\<rparr>],
            events := events s @ [OrderPlaced a (length (orderBook s)) l,
                                  OrderMatched (length (orderBook s)) i]\<rparr>)"
proof -
  let ?n = "length (orderBook s)"
  let ?new = "\<lparr>price = pr, size_o = sz, trader = a, isLong_o = l, isFilled = False,
               timestamp_o = now\<rparr>"
  let ?s2 = "emit (OrderPlaced a ?n l) (s\<lparr>orderBook := orderBook s @ [?new]\<rparr>)"
  have ob2: "orderBook ?s2 = orderBook s @ [?new]" by simp
  have skip: "matchOrders_loop ?s2 ?n 0 = matchOrders_loop ?s2 ?n i"
  proof (rule matchOrders_loop_skip)
    show "0 \<le> i" by simp
    show "i \<le> length (orderBook ?s2)" using i by simp
    show "\<forall>j. 0 \<le> j \<and> j < i \<longrightarrow>
           j = ?n \<or> isLong_o (orderBook ?s2 ! j) = isLong_o (orderBook ?s2 ! ?n)
           \<or> isFilled (orderBook ?s2 ! j) \<or> isFilled (orderBook ?s2 ! ?n)"
      using first i by (auto simp add: nth_append)
  qed
  have hit: "matchOrders_loop ?s2 ?n i =
     emit (OrderMatched ?n i)
       (?s2\<lparr>orderBook := (orderBook ?s2)[?n := (orderBook ?s2 ! ?n)\<lparr>isFilled := True\<rparr>,
                                          i := (orderBook ?s2 ! i)\<lparr>isFilled := True\<rparr>]\<rparr>)"
  proof (rule matchOrders_loop_match)
    show "i < length (orderBook ?s2)" using i by simp
    show "i \<noteq> ?n" using i by simp
    show "isLong_o (orderBook ?s2 ! i) \<noteq> isLong_o (orderBook ?s2 ! ?n)"
      using opp i by (simp add: nth_append)
    show "\<not> isFilled (orderBook ?s2 ! i)" using unf i by (simp add: nth_append)
    show "\<not> isFilled (orderBook ?s2 ! ?n)" by (simp add: nth_append)
  qed
  have "matchOrders_loop ?s2 ?n 0 = matchOrders_loop ?s2 ?n i" by (rule skip)
  also have "\<dots> = emit (OrderMatched ?n i)
       (?s2\<lparr>orderBook := (orderBook ?s2)[?n := (orderBook ?s2 ! ?n)\<lparr>isFilled := True\<rparr>,
                                          i := (orderBook ?s2 ! i)\<lparr>isFilled := True\<rparr>]\<rparr>)"
    by (rule hit)
  also have "\<dots> = s\<lparr>orderBook := (orderBook s)[i := (orderBook s ! i)\<lparr>isFilled := True\<rparr>]
                           @ [\<lparr>price = pr, size_o = sz, trader = a, isLong_o = l,
                               isFilled = True, timestamp_o = now\<rparr>],
            events := events s @ [OrderPlaced a (length (orderBook s)) l,
                                  OrderMatched (length (orderBook s)) i]\<rparr>"
    using i by (simp add: emit_def nth_append list_update_append)
  finally show ?thesis by (simp only: placeOrder_unfold)
qed

lemma placeOrder_no_match:
  assumes none: "\<forall>j<length (orderBook s). isLong_o (orderBook s ! j) = l \<or> isFilled (orderBook s ! j)"
  shows "placeOrder s a now pr sz l =
     Inr (length (orderBook s),
          s\<lparr>orderBook := orderBook s
                           @ [\<lparr>price = pr, size_o = sz, trader = a, isLong_o = l,
                               isFilled = False, timestamp_o = now\<rparr>],
            events := events s @ [OrderPlaced a (length (orderBook s)) l]\<rparr>)"
proof -
  let ?n = "length (orderBook s)"
  let ?new = "\<lparr>price = pr, size_o = sz, trader = a, isLong_o = l, isFilled = False,
               timestamp_o = now\<rparr>"
  let ?s2 = "emit (OrderPlaced a ?n l) (s\<lparr>orderBook := orderBook s @ [?new]\<rparr>)"
  have "matchOrders_loop ?s2 ?n 0 = matchOrders_loop ?s2 ?n (Suc ?n)"
  proof (rule matchOrders_loop_skip)
    show "0 \<le> Suc ?n" by simp
    show "Suc ?n \<le> length (orderBook ?s2)" by simp
    show "\<forall>j. 0 \<le> j \<and> j < Suc ?n \<longrightarrow>
           j = ?n \<or> isLong_o (orderBook ?s2 ! j) = isLong_o (orderBook ?s2 ! ?n)
           \<or> isFilled (orderBook ?s2 ! j) \<or> isFilled (orderBook ?s2 ! ?n)"
      using none by (auto simp add: nth_append less_Suc_eq)
  qed
  also have "\<dots> = ?s2" by (rule matchOrders_loop_end) simp
  also have "\<dots> = s\<lparr>orderBook := orderBook s
                           @ [\<lparr>price = pr, size_o = sz, trader = a, isLong_o = l,
                               isFilled = False, timestamp_o = now\<rparr>],
            events := events s @ [OrderPlaced a (length (orderBook s)) l]\<rparr>"
    by (simp add: emit_def)
  finally show ?thesis by (simp only: placeOrder_unfold)
qed


lemma scenarioC1_place:
  "placeOrder (constructor 0) 2 5 50 5 True = Inr (0, scenarioC1)"
  "orderBook scenarioC1 = [\<lparr>price = 50, size_o = 5, trader = 2, isLong_o = True,
                            isFilled = False, timestamp_o = 5\<rparr>]"
proof -
  have e: "orderBook (constructor 0) = []" by (simp add: constructor_def)
  have none: "\<forall>j<length (orderBook (constructor 0)).
      isLong_o (orderBook (constructor 0) ! j) = True \<or> isFilled (orderBook (constructor 0) ! j)"
    by (simp add: e)
  note p = placeOrder_no_match [OF none, of 2 5 50 5]
  show "placeOrder (constructor 0) 2 5 50 5 True = Inr (0, scenarioC1)"
    by (simp add: scenarioC1_def p e)
  show "orderBook scenarioC1 = [\<lparr>price = 50, size_o = 5, trader = 2, isLong_o = True,
                            isFilled = False, timestamp_o = 5\<rparr>]"
    by (simp add: scenarioC1_def p e)
qed

lemma scenarioC_place:
  "placeOrder scenarioC1 3 6 40 5 False = Inr (1, scenarioC)"
  "orderBook scenarioC =
     [\<lparr>price = 50, size_o = 5, trader = 2, isLong_o = True, isFilled = True, timestamp_o = 5\<rparr>,
      \<lparr>price = 40, size_o = 5, trader = 3, isLong_o = False, isFilled = True, timestamp_o = 6\<rparr>]"
proof -
  note ob = scenarioC1_place(2)
  have p: "placeOrder scenarioC1 3 6 40 5 False =
     Inr (length (orderBook scenarioC1),
          scenarioC1\<lparr>orderBook := (orderBook scenarioC1)[0 := (orderBook scenarioC1 ! 0)\<lparr>isFilled := True\<rparr>]
                           @ [\<lparr>price = 40, size_o = 5, trader = 3, isLong_o = False,
                               isFilled = True, timestamp_o = 6\<rparr>],
            events := events scenarioC1 @ [OrderPlaced 3 (length (orderBook scenarioC1)) False,
                                  OrderMatched (length (orderBook scenarioC1)) 0]\<rparr>)"
    by (rule placeOrder_match) (simp_all add: ob)
  show "placeOrder scenarioC1 3 6 40 5 False = Inr (1, scenarioC)"
    by (simp add: scenarioC_def p ob)
  show "orderBook scenarioC =
     [\<lparr>price = 50, size_o = 5, trader = 2, isLong_o = True, isFilled = True, timestamp_o = 5\<rparr>,
      \<lparr>price = 40, size_o = 5, trader = 3, isLong_o = False, isFilled = True, timestamp_o = 6\<rparr>]"
    by (simp add: scenarioC_def p ob)
qed

lemma scenarioD1_place:
  "placeOrder (constructor 0) 2 5 40 5 True = Inr (0, scenarioD1)"
  "orderBook scenarioD1 = [\<lparr>price = 40, size_o = 5, trader = 2, isLong_o = True,
                            isFilled = False, timestamp_o = 5\<rparr>]"
proof -
  have e: "orderBook (constructor 0) = []" by (simp add: constructor_def)
  have none: "\<forall>j<length (orderBook (constructor 0)).
      isLong_o (orderBook (constructor 0) ! j) = True \<or> isFilled (orderBook (constructor 0) ! j)"
    by (simp add: e)
  note p = placeOrder_no_match [OF none, of 2 5 40 5]
  show "placeOrder (constructor 0) 2 5 40 5 True = Inr (0, scenarioD1)"
    by (simp add: scenarioD1_def p e)
  show "orderBook scenarioD1 = [\<lparr>price = 40, size_o = 5, trader = 2, isLong_o = True,
                            isFilled = False, timestamp_o = 5\<rparr>]"
    by (simp add: scenarioD1_def p e)
qed

text \<open>
  Claim C2. For every \<open>placeOrder\<close> call the new order is appended and the matching pass scans
  the order book in index order. If \<open>i\<close> is the first index of an unfilled order of the opposite
  side, the new order and order \<open>i\<close> are both marked filled and \<open>OrderMatched\<close> is emitted,
  whatever the two prices are; if there is no such order, the new order stays unfilled. Every
  other order is left as it was. In scenario C (a buy at 50, then a sell at 40) both orders
  end up filled and the size of the order book is 2.
\<close>

theorem placeOrder_fills_first_opposite_unfilled_order:
  "(i < length (orderBook s) \<and> isLong_o (orderBook s ! i) \<noteq> l \<and> \<not> isFilled (orderBook s ! i)
    \<and> (\<forall>j<i. isLong_o (orderBook s ! j) = l \<or> isFilled (orderBook s ! j))
    \<longrightarrow> placeOrder s a now pr sz l =
          Inr (length (orderBook s),
               s\<lparr>orderBook := (orderBook s)[i := (orderBook s ! i)\<lparr>isFilled := True\<rparr>]
                                @ [\<lparr>price = pr, size_o = sz, trader = a, isLong_o = l,
                                    isFilled = True, timestamp_o = now\<rparr>],
                 events := events s @ [OrderPlaced a (length (orderBook s)) l,
                                       OrderMatched (length (orderBook s)) i]\<rparr>))
   \<and> ((\<forall>j<length (orderBook s). isLong_o (orderBook s ! j) = l \<or> isFilled (orderBook s ! j))
    \<longrightarrow> placeOrder s a now pr sz l =
          Inr (length (orderBook s),
               s\<lparr>orderBook := orderBook s
                                @ [\<lparr>price = pr, size_o = sz, trader = a, isLong_o = l,
                                    isFilled = False, timestamp_o = now\<rparr>],
                 events := events s @ [OrderPlaced a (length (orderBook s)) l]\<rparr>))
   \<and> placeOrder (constructor 0) 2 5 50 5 True = Inr (0, scenarioC1)
   \<and> placeOrder scenarioC1 3 6 40 5 False = Inr (1, scenarioC)
   \<and> map isFilled (orderBook scenarioC) = [True, True]
   \<and> getOrderBookSize scenarioC = 2"
proof -
  have filled: "map isFilled (orderBook scenarioC) = [True, True]"
    by (simp add: scenarioC_place(2))
  have sz: "getOrderBookSize scenarioC = 2"
    by (simp add: getOrderBookSize_def scenarioC_place(2))
  show ?thesis
    using placeOrder_match [of i s l a now pr sz] placeOrder_no_match [of s l a now pr sz]
      scenarioC1_place(1) scenarioC_place(1) filled sz
    by blast
qed

theorem placeOrder_fills_first_opposite_unfilled_order_witness:
  "0 < length (orderBook scenarioD1)
   \<and> isLong_o (orderBook scenarioD1 ! 0) \<noteq> False
   \<and> \<not> isFilled (orderBook scenarioD1 ! 0)
   \<and> price (orderBook scenarioD1 ! 0) = 40
   \<and> placeOrder scenarioD1 3 6 50 5 False = Inr (1, scenarioD)
   \<and> orderBook scenarioD =
     [\<lparr>price = 40, size_o = 5, trader = 2, isLong_o = True, isFilled = True, timestamp_o = 5\<rparr>,
      \<lparr>price = 50, size_o = 5, trader = 3, isLong_o = False, isFilled = True, timestamp_o = 6\<rparr>]"
proof -
  note ob = scenarioD1_place(2)
  have h: "0 < length (orderBook scenarioD1) \<and> isLong_o (orderBook scenarioD1 ! 0) \<noteq> False
    \<and> \<not> isFilled (orderBook scenarioD1 ! 0)
    \<and> (\<forall>j<0. isLong_o (orderBook scenarioD1 ! j) = False \<or> isFilled (orderBook scenarioD1 ! j))"
    by (simp add: ob)
  from placeOrder_fills_first_opposite_unfilled_order [of 0 scenarioD1 False 3 6 50 5] h
  have p: "placeOrder scenarioD1 3 6 50 5 False =
          Inr (length (orderBook scenarioD1),
               scenarioD1\<lparr>orderBook := (orderBook scenarioD1)[0 := (orderBook scenarioD1 ! 0)\<lparr>isFilled := True\<rparr>]
                                @ [\<lparr>price = 50, size_o = 5, trader = 3, isLong_o = False,
                                    isFilled = True, timestamp_o = 6\<rparr>],
                 events := events scenarioD1 @ [OrderPlaced 3 (length (orderBook scenarioD1)) False,
                                       OrderMatched (length (orderBook scenarioD1)) 0]\<rparr>)"
    by blast
  show ?thesis using h by (simp add: scenarioD_def p ob)
qed

section \<open>What a transaction does to the positions\<close>

lemma closePosition_positions:
  assumes "closePosition s a q = Inr s'"
  shows "isOpen (positions s a q)
    \<and> positions s' = (positions s)(a := (positions s a)(q := (positions s a q)\<lparr>isOpen := False\<rparr>))"
proof (cases "isOpen (positions s a q)")
  case True
  then obtain pnl where "calculatePnL s a q = Inr pnl"
    using calculatePnL_total by blast
  with True assms show ?thesis by (auto simp add: closePosition_open)
next
  case False
  with assms show ?thesis by (simp add: closePosition_closed)
qed

lemma executeStopLossTakeProfit_positions:
  assumes "executeStopLossTakeProfit s c a q = Inr s'"
  shows "isOpen (positions s a q)
    \<and> positions s' = (positions s)(a := (positions s a)(q := (positions s a q)\<lparr>isOpen := False\<rparr>))"
proof (cases "isOpen (positions s a q)")
  case True
  then obtain pnl where "calculatePnL s a q = Inr pnl"
    using calculatePnL_total by blast
  with True assms show ?thesis by (auto simp add: executeStopLossTakeProfit_open)
next
  case False
  with assms show ?thesis by (simp add: executeStopLossTakeProfit_closed)
qed

lemma liquidate_positions:
  assumes "liquidate s c a q = Inr s'"
  shows "isOpen (positions s a q)
    \<and> positions s' = (positions s)(a := (positions s a)(q := (positions s a q)\<lparr>isOpen := False\<rparr>))"
proof (cases "isOpen (positions s a q)")
  case True
  with assms show ?thesis by (auto simp add: liquidate_open)
next
  case False
  with assms show ?thesis by (simp add: liquidate_closed)
qed

lemma updateStopLossTakeProfit_positions:
  assumes "updateStopLossTakeProfit s a q sl tp = Inr s'"
  shows "isOpen (positions s a q)
    \<and> positions s' = (positions s)(a := (positions s a)
          (q := (positions s a q)\<lparr>stopLoss := sl, takeProfit := tp\<rparr>))"
proof (cases "isOpen (positions s a q)")
  case True
  with assms show ?thesis by (auto simp add: updateStopLossTakeProfit_open)
next
  case False
  with assms show ?thesis by (simp add: updateStopLossTakeProfit_closed)
qed

lemma openPosition_positions:
  assumes "openPosition s a now sz lev l sl tp = Inr (pid, s')"
  shows "pid = Keccak256 a now (unat sz)
    \<and> (\<forall>b q. \<not> (b = a \<and> q = pid) \<longrightarrow> positions s' b q = positions s b q)"
proof (cases "lev = 0")
  case True
  with assms show ?thesis by (simp add: openPosition_zero_leverage)
next
  case False
  with assms show ?thesis by (auto simp add: openPosition_ok)
qed

lemma placeOrder_positions:
  assumes "placeOrder s a now pr sz l = Inr (oid, s')"
  shows "positions s' = positions s"
  using assms by (auto simp add: placeOrder_unfold matchOrders_loop_frame)

lemma updateOraclePrice_positions:
  assumes "updateOraclePrice s a now v = Inr s'"
  shows "positions s' = positions s"
  using assms by (auto simp add: updateOraclePrice_def split: if_splits)

text \<open>
  A position that is open after a transaction was open before it, unless the transaction is the
  \<open>openPosition\<close> call that computes its id.
\<close>

lemma step_open_origin:
  assumes "step s c = Inr s'" and "isOpen (positions s' t p)"
  shows "isOpen (positions s t p)
    \<or> (\<exists>now sz lev l sl tp. c = OpenPosition t now sz lev l sl tp \<and> p = Keccak256 t now (unat sz))"
proof (cases c)
  case (Deposit a v)
  with assms show ?thesis by auto
next
  case (OpenPosition a now sz lev l sl tp)
  with assms(1) obtain pid where o: "openPosition s a now sz lev l sl tp = Inr (pid, s')"
    by (auto split: sum.splits)
  from openPosition_positions [OF o] have
    pid: "pid = Keccak256 a now (unat sz)"
    and ps: "\<forall>b q. \<not> (b = a \<and> q = pid) \<longrightarrow> positions s' b q = positions s b q"
    by blast+
  show ?thesis
  proof (cases "t = a \<and> p = pid")
    case True
    with OpenPosition pid show ?thesis by blast
  next
    case False
    with ps have "positions s' t p = positions s t p" by blast
    with assms(2) show ?thesis by simp
  qed
next
  case (ClosePosition a q)
  with assms(1) have "closePosition s a q = Inr s'" by simp
  from closePosition_positions [OF this] assms(2) show ?thesis
    by (auto split: if_splits)
next
  case (UpdateStopLossTakeProfit a q sl tp)
  with assms(1) have "updateStopLossTakeProfit s a q sl tp = Inr s'" by simp
  from updateStopLossTakeProfit_positions [OF this] assms(2) show ?thesis
    by (auto split: if_splits)
next
  case (ExecuteStopLossTakeProfit c' a q)
  with assms(1) have "executeStopLossTakeProfit s c' a q = Inr s'" by simp
  from executeStopLossTakeProfit_positions [OF this] assms(2) show ?thesis
    by (auto split: if_splits)
next
  case (Liquidate c' a q)
  with assms(1) have "liquidate s c' a q = Inr s'" by simp
  from liquidate_positions [OF this] assms(2) show ?thesis
    by (auto split: if_splits)
next
  case (PlaceOrder a now pr sz l)
  with assms(1) obtain oid where "placeOrder s a now pr sz l = Inr (oid, s')"
    by (auto split: sum.splits)
  from placeOrder_positions [OF this] assms(2) show ?thesis by simp
next
  case (UpdateOraclePrice a now v)
  with assms(1) have "updateOraclePrice s a now v = Inr s'" by simp
  from updateOraclePrice_positions [OF this] assms(2) show ?thesis by simp
qed

text \<open>
  In every state the contract can be in, an open position is stored under the account that is
  packed into its id.
\<close>

lemma reachable_open_owner:
  "reachable s \<Longrightarrow> isOpen (positions s c p) \<Longrightarrow> packedSender p = Some c"
proof (induction arbitrary: c p rule: reachable.induct)
  case (reachable_init a)
  then show ?case by (simp add: constructor_def zeroPosition_def)
next
  case (reachable_step s call s')
  from step_open_origin [OF reachable_step.hyps(2) reachable_step.prems]
  show ?case using reachable_step.IH by auto
qed

lemma transact_closed_persists:
  assumes "\<not> isOpen (positions s t p)"
    and "\<forall>now sz lev l sl tp. c = OpenPosition t now sz lev l sl tp \<longrightarrow> p \<noteq> Keccak256 t now (unat sz)"
  shows "\<not> isOpen (positions (transact s c) t p)"
proof (cases "step s c")
  case (Inl e)
  with assms(1) show ?thesis by (simp add: transact_def)
next
  case (Inr s')
  from step_open_origin [OF Inr] assms have "\<not> isOpen (positions s' t p)" by blast
  with Inr show ?thesis by (simp add: transact_def)
qed

section \<open>The scenarios as sequences of transactions\<close>

lemma reachable_scenario0: "reachable scenario0"
proof -
  have r0: "reachable (constructor 0)" by (rule reachable_init)
  have "step (constructor 0) (UpdateOraclePrice 0 1 100)
        = Inr (projr (updateOraclePrice (constructor 0) 0 1 100))"
    by (simp add: updateOraclePrice_def constructor_def)
  from reachable_step [OF r0 this]
  have r1: "reachable (projr (updateOraclePrice (constructor 0) 0 1 100))" .
  have "step (projr (updateOraclePrice (constructor 0) 0 1 100)) (Deposit 2 1000) = Inr scenario0"
    by (simp add: scenario0_def)
  from reachable_step [OF r1 this] show ?thesis .
qed

lemma reachable_scenarioA: "reachable scenarioA"
proof -
  have "step scenario0 (OpenPosition 2 7 10 5 True 0 0) = Inr scenarioA"
    by (simp add: scenarioA_open)
  from reachable_step [OF reachable_scenario0 this] show ?thesis .
qed

lemma reachable_scenarioL: "reachable scenarioL"
proof -
  have "step scenarioA (Liquidate 3 2 scenarioA_id) = Inr scenarioL"
    by (simp add: scenarioL_liquidate)
  from reachable_step [OF reachable_scenarioA this] show ?thesis .
qed

section \<open>The mock on the same scenarios\<close>

text \<open>
  ConfidentialPerpDEXMock is the stand-in of the contract for networks without encrypted types.
  It agrees with ConfidentialPerpDEX on the scenarios A and B, and it differs where it can read
  the values: it refuses to open a position that the balance does not cover, it liquidates only
  a position that \<open>checkLiquidation\<close> finds liquidatable, it matches two orders only when their
  prices cross, and it counts a loss as a profit of zero.
\<close>

lemma emit_m_sel [simp]:
  "balances (emit_m e s) = balances s"
  "positions_m (emit_m e s) = positions_m s"
  "orderBook_m (emit_m e s) = orderBook_m s"
  "oraclePrice (emit_m e s) = oraclePrice s"
  "liquidationThreshold_m (emit_m e s) = liquidationThreshold_m s"
  "admin_m (emit_m e s) = admin_m s"
  "events_m (emit_m e s) = events_m s @ [e]"
  by (simp_all add: emit_m_def)

lemma setPosition_m_sel [simp]:
  "balances (setPosition_m a pid p s) = balances s"
  "positions_m (setPosition_m a pid p s) = (positions_m s)(a := (positions_m s a)(pid := p))"
  "orderBook_m (setPosition_m a pid p s) = orderBook_m s"
  "oraclePrice (setPosition_m a pid p s) = oraclePrice s"
  "liquidationThreshold_m (setPosition_m a pid p s) = liquidationThreshold_m s"
  "admin_m (setPosition_m a pid p s) = admin_m s"
  "events_m (setPosition_m a pid p s) = events_m s"
  by (simp_all add: setPosition_m_def)

lemma setBalance_m_sel [simp]:
  "balances (setBalance_m a v s) = (balances s)(a := v)"
  "positions_m (setBalance_m a v s) = positions_m s"
  "orderBook_m (setBalance_m a v s) = orderBook_m s"
  "oraclePrice (setBalance_m a v s) = oraclePrice s"
  "liquidationThreshold_m (setBalance_m a v s) = liquidationThreshold_m s"
  "admin_m (setBalance_m a v s) = admin_m s"
  "events_m (setBalance_m a v s) = events_m s"
  by (simp_all add: setBalance_m_def)

lemma scenario0_m_facts:
  "balances scenario0_m 2 = 1000"
  "balances scenario0_m 3 = 0"
  "oraclePrice scenario0_m = 100"
  "liquidationThreshold_m scenario0_m = 500"
  "admin_m scenario0_m = 0"
  by (simp_all add: scenario0_m_def deposit_m_def updateOraclePrice_m_def constructor_m_def
      checked_add_def)

lemma scenarioA_m_open:
  "openPosition_m scenario0_m 2 7 10 5 True = Inr (scenarioA_id, scenarioA_m)"
  by (simp add: scenarioA_m_def scenarioA_id_def openPosition_m_def scenario0_m_facts
      checked_mul_def checked_div_def checked_sub_def Let_def)

lemma scenarioA_m_facts:
  "balances scenarioA_m 2 = 800"
  "balances scenarioA_m 3 = 0"
  "oraclePrice scenarioA_m = 100"
  "liquidationThreshold_m scenarioA_m = 500"
  "admin_m scenarioA_m = 0"
  "positions_m scenarioA_m 2 scenarioA_id = \<lparr>size_m = 10, entryPrice_m = 100, collateral_m = 200,
     leverage_m = 5, isLong_m = True, timestamp_m = 7, isOpen_m = True\<rparr>"
  by (simp_all add: scenarioA_m_def scenarioA_id_def openPosition_m_def scenario0_m_facts
      checked_mul_def checked_div_def checked_sub_def Let_def)

lemma scenarioA120_m_facts:
  "updateOraclePrice_m scenarioA_m 0 8 120 = Inr scenarioA120_m"
  "balances scenarioA120_m 2 = 800"
  "oraclePrice scenarioA120_m = 120"
  "positions_m scenarioA120_m 2 scenarioA_id = positions_m scenarioA_m 2 scenarioA_id"
  by (simp_all add: scenarioA120_m_def updateOraclePrice_m_def scenarioA_m_facts)

lemma scenarioA120_m_pnl: "calculatePnL_m scenarioA120_m 2 scenarioA_id = Inr 200"
  by (simp add: calculatePnL_m_def scenarioA120_m_facts scenarioA_m_facts
      checked_sub_def checked_mul_def)

text \<open>Scenarios A and B on the mock: collateral 200, balance 800, then 1200.\<close>

lemma mock_scenarioB:
  "closePosition_m scenarioA120_m 2 scenarioA_id = Inr scenarioB_m"
  "balances scenarioB_m 2 = 1200"
  "\<not> isOpen_m (positions_m scenarioB_m 2 scenarioA_id)"
  "closePosition_m scenarioB_m 2 scenarioA_id = Inl Position_not_open"
  by (simp_all add: scenarioB_m_def closePosition_m_def scenarioA120_m_pnl scenarioA120_m_facts
      scenarioA_m_facts checked_add_def Let_def)


text \<open>
  A long position after the price fell from 100 to 80: the contract returns the loss as
  \<open>(80 - 100) * 10\<close> modulo \<open>2 ^ 64\<close>, so that collateral plus profit is 0; the mock returns 0.
\<close>

lemma loss_on_contract_and_mock:
  "calculatePnL scenarioA80 2 scenarioA_id = Inr (- 200)"
  "collateral (positions scenarioA80 2 scenarioA_id) + (- 200) = 0"
  "calculatePnL_m scenarioA80_m 2 scenarioA_id = Inr 0"
proof -
  have f: "encryptedOraclePrice scenarioA80 = 80"
    "positions scenarioA80 2 scenarioA_id = positions scenarioA 2 scenarioA_id"
    by (simp_all add: scenarioA80_def updateOraclePrice_def scenarioA_facts)
  show "calculatePnL scenarioA80 2 scenarioA_id = Inr (- 200)"
    by (simp add: calculatePnL_open f scenarioA_facts)
  show "collateral (positions scenarioA80 2 scenarioA_id) + (- 200) = 0"
    by (simp add: f scenarioA_facts)
  have g: "oraclePrice scenarioA80_m = 80"
    "positions_m scenarioA80_m 2 scenarioA_id = positions_m scenarioA_m 2 scenarioA_id"
    by (simp_all add: scenarioA80_m_def updateOraclePrice_m_def scenarioA_m_facts)
  show "calculatePnL_m scenarioA80_m 2 scenarioA_id = Inr 0"
    by (simp add: calculatePnL_m_def g scenarioA_m_facts checked_mul_def)
qed

text \<open>
  Scenario D, a buy order at 40 and then a sell order at 50: the prices do not cross, and the
  mock leaves both orders unfilled.
\<close>

lemma matchOrders_loop_m_end:
  "length (orderBook_m s) \<le> k \<Longrightarrow> matchOrders_loop_m s n k = s"
  by (simp add: matchOrders_loop_m.simps [of s n k])

lemma matchOrders_loop_m_continue:
  assumes "k < length (orderBook_m s)"
    and "k = n \<or> isLong_om (orderBook_m s ! k) = isLong_om (orderBook_m s ! n)
         \<or> isFilled_m (orderBook_m s ! k) \<or> isFilled_m (orderBook_m s ! n)
         \<or> \<not> (if isLong_om (orderBook_m s ! n)
                then price_m (orderBook_m s ! n) \<ge> price_m (orderBook_m s ! k)
                else price_m (orderBook_m s ! n) \<le> price_m (orderBook_m s ! k))"
  shows "matchOrders_loop_m s n k = matchOrders_loop_m s n (Suc k)"
  using assms by (subst matchOrders_loop_m.simps) (auto simp add: Let_def)

lemma mock_matching_requires_crossing_prices:
  "placeOrder_m scenarioD1_m 3 6 50 5 False = Inr (1, scenarioD_m)"
  "map isFilled_m (orderBook_m scenarioD_m) = [False, False]"
proof -
  have d1: "orderBook_m scenarioD1_m = [\<lparr>price_m = 40, size_om = 5, trader_m = 2, isLong_om = True,
                            isFilled_m = False, timestamp_om = 5\<rparr>]"
    by (simp add: scenarioD1_m_def placeOrder_m_def matchOrders_m_def constructor_m_def Let_def
        matchOrders_loop_m.simps emit_m_def)
  let ?s2 = "emit_m (OrderPlaced 3 (Suc 0) False)
       (scenarioD1_m\<lparr>orderBook_m := orderBook_m scenarioD1_m @
           [\<lparr>price_m = 50, size_om = 5, trader_m = 3, isLong_om = False,
             isFilled_m = False, timestamp_om = 6\<rparr>]\<rparr>)"
  have "matchOrders_loop_m ?s2 (Suc 0) 0 = matchOrders_loop_m ?s2 (Suc 0) (Suc 0)"
    by (rule matchOrders_loop_m_continue) (simp_all add: d1)
  also have "\<dots> = matchOrders_loop_m ?s2 (Suc 0) (Suc (Suc 0))"
    by (rule matchOrders_loop_m_continue) (simp_all add: d1)
  also have "\<dots> = ?s2"
    by (rule matchOrders_loop_m_end) (simp add: d1)
  finally have loop: "matchOrders_loop_m ?s2 (Suc 0) 0 = ?s2" .
  have u: "placeOrder_m scenarioD1_m 3 6 50 5 False = Inr (Suc 0, matchOrders_loop_m ?s2 (Suc 0) 0)"
    by (simp add: placeOrder_m_def matchOrders_m_def Let_def d1)
  have p: "placeOrder_m scenarioD1_m 3 6 50 5 False = Inr (Suc 0, ?s2)"
    by (simp only: u loop)
  show "placeOrder_m scenarioD1_m 3 6 50 5 False = Inr (1, scenarioD_m)"
    by (simp add: scenarioD_m_def p)
  show "map isFilled_m (orderBook_m scenarioD_m) = [False, False]"
    by (simp add: scenarioD_m_def p d1)
qed

text \<open>Scenario R on the mock: the closed position id is opened again and closed again.\<close>

lemma mock_scenarioR:
  "closePosition_m scenarioA_m 2 scenarioA_id = Inr scenarioA_closed_m"
  "\<not> isOpen_m (positions_m scenarioA_closed_m 2 scenarioA_id)"
  "openPosition_m scenarioA_closed_m 2 7 10 5 True = Inr (scenarioA_id, scenarioR_m)"
  "isOpen_m (positions_m scenarioR_m 2 scenarioA_id)"
  "closePosition_m scenarioR_m 2 scenarioA_id = Inr scenarioR_closed_m"
proof -
  have pnl: "calculatePnL_m scenarioA_m 2 scenarioA_id = Inr 0"
    by (simp add: calculatePnL_m_def scenarioA_m_facts checked_mul_def)
  have c: "closePosition_m scenarioA_m 2 scenarioA_id = Inr
     (emit_m (PositionClosed 2 scenarioA_id)
        (setPosition_m 2 scenarioA_id ((positions_m scenarioA_m 2 scenarioA_id)\<lparr>isOpen_m := False\<rparr>)
           (setBalance_m 2 1000 scenarioA_m)))"
    by (simp add: closePosition_m_def pnl scenarioA_m_facts checked_add_def Let_def)
  show "closePosition_m scenarioA_m 2 scenarioA_id = Inr scenarioA_closed_m"
    by (simp add: scenarioA_closed_m_def c)
  have f: "balances scenarioA_closed_m 2 = 1000" "oraclePrice scenarioA_closed_m = 100"
    by (simp_all add: scenarioA_closed_m_def c scenarioA_m_facts)
  show "\<not> isOpen_m (positions_m scenarioA_closed_m 2 scenarioA_id)"
    by (simp add: scenarioA_closed_m_def c)
  have o: "openPosition_m scenarioA_closed_m 2 7 10 5 True = Inr (scenarioA_id,
     emit_m (PositionOpened 2 scenarioA_id True)
       ((setPosition_m 2 scenarioA_id
          \<lparr>size_m = 10, entryPrice_m = 100, collateral_m = 200, leverage_m = 5,
           isLong_m = True, timestamp_m = 7, isOpen_m = True\<rparr>
          (setBalance_m 2 800 scenarioA_closed_m))
        \<lparr>userPositionIds_m := (userPositionIds_m scenarioA_closed_m)
           (2 := userPositionIds_m scenarioA_closed_m 2 @ [scenarioA_id])\<rparr>))"
    by (simp add: openPosition_m_def f scenarioA_id_def
        checked_mul_def checked_div_def checked_sub_def Let_def setPosition_m_def setBalance_m_def)
  show "openPosition_m scenarioA_closed_m 2 7 10 5 True = Inr (scenarioA_id, scenarioR_m)"
    by (simp add: scenarioR_m_def o)
  have r: "positions_m scenarioR_m 2 scenarioA_id =
     \<lparr>size_m = 10, entryPrice_m = 100, collateral_m = 200, leverage_m = 5,
           isLong_m = True, timestamp_m = 7, isOpen_m = True\<rparr>"
     "balances scenarioR_m 2 = 800" "oraclePrice scenarioR_m = 100"
    by (simp_all add: scenarioR_m_def o f)
  show "isOpen_m (positions_m scenarioR_m 2 scenarioA_id)" by (simp add: r)
  have pnl2: "calculatePnL_m scenarioR_m 2 scenarioA_id = Inr 0"
    by (simp add: calculatePnL_m_def r checked_mul_def)
  have "\<exists>s'. closePosition_m scenarioR_m 2 scenarioA_id = Inr s'"
    by (simp add: closePosition_m_def pnl2 r checked_add_def Let_def)
  then show "closePosition_m scenarioR_m 2 scenarioA_id = Inr scenarioR_closed_m"
    by (auto simp add: scenarioR_closed_m_def)
qed

lemma matchOrders_loop_m_match:
  assumes "k < length (orderBook_m s)" and "k \<noteq> n"
    and "isLong_om (orderBook_m s ! k) \<noteq> isLong_om (orderBook_m s ! n)"
    and "\<not> isFilled_m (orderBook_m s ! k)" and "\<not> isFilled_m (orderBook_m s ! n)"
    and "if isLong_om (orderBook_m s ! n)
         then price_m (orderBook_m s ! n) \<ge> price_m (orderBook_m s ! k)
         else price_m (orderBook_m s ! n) \<le> price_m (orderBook_m s ! k)"
  shows "matchOrders_loop_m s n k =
     emit_m (OrderMatched n k)
       (s\<lparr>orderBook_m := (orderBook_m s)[n := (orderBook_m s ! n)\<lparr>isFilled_m := True\<rparr>,
                                         k := (orderBook_m s ! k)\<lparr>isFilled_m := True\<rparr>]\<rparr>)"
  using assms by (subst matchOrders_loop_m.simps) (simp add: Let_def)

text \<open>Scenario C on the mock: the sell at 40 crosses the buy at 50, and both are filled.\<close>

lemma mock_scenarioC:
  "placeOrder_m scenarioC1_m 3 6 40 5 False = Inr (1, scenarioC_m)"
  "map isFilled_m (orderBook_m scenarioC_m) = [True, True]"
  "getOrderBookSize_m scenarioC_m = 2"
proof -
  have c1: "orderBook_m scenarioC1_m = [\<lparr>price_m = 50, size_om = 5, trader_m = 2, isLong_om = True,
                            isFilled_m = False, timestamp_om = 5\<rparr>]"
    by (simp add: scenarioC1_m_def placeOrder_m_def matchOrders_m_def constructor_m_def Let_def
        matchOrders_loop_m.simps emit_m_def)
  let ?s2 = "emit_m (OrderPlaced 3 (Suc 0) False)
       (scenarioC1_m\<lparr>orderBook_m := orderBook_m scenarioC1_m @
           [\<lparr>price_m = 40, size_om = 5, trader_m = 3, isLong_om = False,
             isFilled_m = False, timestamp_om = 6\<rparr>]\<rparr>)"
  have loop: "matchOrders_loop_m ?s2 (Suc 0) 0 =
     emit_m (OrderMatched (Suc 0) 0)
       (?s2\<lparr>orderBook_m := (orderBook_m ?s2)[Suc 0 := (orderBook_m ?s2 ! Suc 0)\<lparr>isFilled_m := True\<rparr>,
                                         0 := (orderBook_m ?s2 ! 0)\<lparr>isFilled_m := True\<rparr>]\<rparr>)"
    by (rule matchOrders_loop_m_match) (simp_all add: c1)
  have u: "placeOrder_m scenarioC1_m 3 6 40 5 False = Inr (Suc 0, matchOrders_loop_m ?s2 (Suc 0) 0)"
    by (simp add: placeOrder_m_def matchOrders_m_def Let_def c1)
  note p = u [unfolded loop]
  show "placeOrder_m scenarioC1_m 3 6 40 5 False = Inr (1, scenarioC_m)"
    by (simp add: scenarioC_m_def p)
  show "map isFilled_m (orderBook_m scenarioC_m) = [True, True]"
    by (simp add: scenarioC_m_def p c1)
  show "getOrderBookSize_m scenarioC_m = 2"
    by (simp add: getOrderBookSize_m_def scenarioC_m_def p c1)
qed

section \<open>Terminality of a closed position\<close>

lemma run_closed_persists:
  "\<not> isOpen (positions s t p) \<Longrightarrow> \<forall>c \<in> set cs. \<not> reopens t p c
   \<Longrightarrow> \<not> isOpen (positions (run s cs) t p)"
proof (induction cs arbitrary: s)
  case Nil
  then show ?case by simp
next
  case (Cons c cs)
  have "\<forall>now sz lev l sl tp. c = OpenPosition t now sz lev l sl tp \<longrightarrow> p \<noteq> Keccak256 t now (unat sz)"
    using Cons.prems(2) by auto
  from transact_closed_persists [OF Cons.prems(1) this]
  have "\<not> isOpen (positions (transact s c) t p)" .
  moreover have "\<forall>c \<in> set cs. \<not> reopens t p c" using Cons.prems(2) by simp
  ultimately show ?case using Cons.IH by simp
qed

lemma scenarioA_pnl: "calculatePnL scenarioA 2 scenarioA_id = Inr 0"
  by (simp add: calculatePnL_open scenarioA_facts)

lemma scenarioA_closed_close:
  "closePosition scenarioA 2 scenarioA_id = Inr scenarioA_closed"
  by (simp add: scenarioA_closed_def closePosition_open [OF _ scenarioA_pnl] scenarioA_facts)

lemma scenarioA_closed_facts:
  "encryptedBalances scenarioA_closed 2 = Some 1000"
  "encryptedOraclePrice scenarioA_closed = 100"
  "\<not> isOpen (positions scenarioA_closed 2 scenarioA_id)"
  by (simp_all add: scenarioA_closed_def closePosition_open [OF _ scenarioA_pnl] scenarioA_facts)

lemma reachable_scenarioA_closed: "reachable scenarioA_closed"
proof -
  have "step scenarioA (ClosePosition 2 scenarioA_id) = Inr scenarioA_closed"
    by (simp add: scenarioA_closed_close)
  from reachable_step [OF reachable_scenarioA this] show ?thesis .
qed

lemma scenarioR_open:
  "openPosition scenarioA_closed 2 7 10 5 True 0 0 = Inr (scenarioA_id, scenarioR)"
  by (simp add: scenarioR_def scenarioA_id_def openPosition_ok)

lemma scenarioR_facts:
  "encryptedBalances scenarioR 2 = Some 800"
  "encryptedOraclePrice scenarioR = 100"
  "positions scenarioR 2 scenarioA_id = \<lparr>size_p = 10, entryPrice = 100, collateral = 200, leverage = 5,
     isLong = True, timestamp = 7, isOpen = True, stopLoss = 0, takeProfit = 0\<rparr>"
  by (simp_all add: scenarioR_def scenarioA_id_def openPosition_ok scenarioA_closed_facts)

lemma scenarioR_pnl: "calculatePnL scenarioR 2 scenarioA_id = Inr 0"
  by (simp add: calculatePnL_open scenarioR_facts)

lemma scenarioR_closed_close:
  "closePosition scenarioR 2 scenarioA_id = Inr scenarioR_closed"
  by (simp add: scenarioR_closed_def closePosition_open [OF _ scenarioR_pnl] scenarioR_facts)

text \<open>
  Claim C8, as the contract has it. In every state in which a position is not open (so in every
  reachable one), \<open>closePosition\<close>, \<open>liquidate\<close> and \<open>executeStopLossTakeProfit\<close> on that position
  fail with \<open>Position not open\<close>, an \<open>InvalidStateError\<close>, whoever the caller of the last two is;
  in a reachable state \<open>closePosition\<close> on the id of that position fails for every caller. The
  position stays not open, and the three calls keep failing, after every sequence of
  transactions in which no \<open>openPosition\<close> call computes the id of the position again. Of two
  \<open>liquidate\<close> calls in a row on the same open position the first succeeds and the second
  fails.
\<close>

theorem closed_position_is_terminal:
  "(\<not> isOpen (positions s t p) \<longrightarrow>
      closePosition s t p = Inl Position_not_open
      \<and> liquidate s c t p = Inl Position_not_open
      \<and> executeStopLossTakeProfit s c t p = Inl Position_not_open)
   \<and> (reachable s \<and> packedSender p = Some t \<and> \<not> isOpen (positions s t p) \<longrightarrow>
        closePosition s c p = Inl Position_not_open)
   \<and> (\<not> isOpen (positions s t p) \<and> (\<forall>x \<in> set cs. \<not> reopens t p x) \<longrightarrow>
        closePosition (run s cs) t p = Inl Position_not_open
        \<and> liquidate (run s cs) c t p = Inl Position_not_open
        \<and> executeStopLossTakeProfit (run s cs) c t p = Inl Position_not_open)
   \<and> (isOpen (positions s t p) \<longrightarrow>
        (\<exists>s1. liquidate s c t p = Inr s1 \<and> liquidate s1 c' t p = Inl Position_not_open))
   \<and> errorClass Position_not_open = Some InvalidStateError"
proof -
  have a: "\<not> isOpen (positions s t p) \<longrightarrow>
      closePosition s t p = Inl Position_not_open
      \<and> liquidate s c t p = Inl Position_not_open
      \<and> executeStopLossTakeProfit s c t p = Inl Position_not_open"
    by (simp add: closePosition_closed liquidate_closed executeStopLossTakeProfit_closed)
  have b: "reachable s \<and> packedSender p = Some t \<and> \<not> isOpen (positions s t p) \<longrightarrow>
        closePosition s c p = Inl Position_not_open"
  proof
    assume h: "reachable s \<and> packedSender p = Some t \<and> \<not> isOpen (positions s t p)"
    have "\<not> isOpen (positions s c p)"
    proof
      assume "isOpen (positions s c p)"
      with h have "packedSender p = Some c" using reachable_open_owner by blast
      with h have "c = t" by simp
      with h \<open>isOpen (positions s c p)\<close> show False by simp
    qed
    then show "closePosition s c p = Inl Position_not_open" by (rule closePosition_closed)
  qed
  have r: "\<not> isOpen (positions s t p) \<and> (\<forall>x \<in> set cs. \<not> reopens t p x) \<longrightarrow>
        closePosition (run s cs) t p = Inl Position_not_open
        \<and> liquidate (run s cs) c t p = Inl Position_not_open
        \<and> executeStopLossTakeProfit (run s cs) c t p = Inl Position_not_open"
    using run_closed_persists [of s t p cs]
    by (simp add: closePosition_closed liquidate_closed executeStopLossTakeProfit_closed)
  have c: "isOpen (positions s t p) \<longrightarrow>
        (\<exists>s1. liquidate s c t p = Inr s1 \<and> liquidate s1 c' t p = Inl Position_not_open)"
    by (simp add: liquidate_open liquidate_closed)
  from a b r c show ?thesis by simp
qed

theorem closed_position_is_terminal_witness:
  "\<not> isOpen (positions scenarioL 2 scenarioA_id)
   \<and> reachable scenarioL \<and> packedSender scenarioA_id = Some 2
   \<and> closePosition scenarioL 2 scenarioA_id = Inl Position_not_open
   \<and> closePosition scenarioL 3 scenarioA_id = Inl Position_not_open
   \<and> executeStopLossTakeProfit scenarioL 3 2 scenarioA_id = Inl Position_not_open
   \<and> \<not> reopens 2 scenarioA_id (Deposit 2 5)
   \<and> \<not> reopens 2 scenarioA_id (OpenPosition 2 8 10 5 True 0 0)
   \<and> \<not> reopens 2 scenarioA_id (UpdateOraclePrice 0 8 50)
   \<and> liquidate (run scenarioL [Deposit 2 5, OpenPosition 2 8 10 5 True 0 0, UpdateOraclePrice 0 8 50])
        3 2 scenarioA_id = Inl Position_not_open
   \<and> isOpen (positions scenarioA 2 scenarioA_id)
   \<and> liquidate scenarioA 3 2 scenarioA_id = Inr scenarioL
   \<and> liquidate scenarioL 4 2 scenarioA_id = Inl Position_not_open"
proof -
  have h: "\<not> isOpen (positions scenarioL 2 scenarioA_id)" "reachable scenarioL"
    "packedSender scenarioA_id = Some 2" "isOpen (positions scenarioA 2 scenarioA_id)"
    "\<forall>x \<in> set [Deposit 2 5, OpenPosition 2 8 10 5 True 0 0, UpdateOraclePrice 0 8 50].
         \<not> reopens 2 scenarioA_id x"
    by (simp_all add: scenarioL_facts reachable_scenarioL scenarioA_facts)
       (simp_all add: scenarioA_id_def)
  show ?thesis
    using h closed_position_is_terminal [where s = scenarioL and t = 2 and p = scenarioA_id
        and c = 3 and cs = "[Deposit 2 5, OpenPosition 2 8 10 5 True 0 0, UpdateOraclePrice 0 8 50]"]
      closed_position_is_terminal [where s = scenarioL and t = 2 and p = scenarioA_id and c = 4]
      closed_position_is_terminal [where s = scenarioA and t = 2 and p = scenarioA_id and c = 3
        and c' = 4]
      scenarioL_liquidate
    by simp
qed

text \<open>
  Claim C8 as it is stated fails when the id is computed again. The trader closes the position
  of scenario A: the state is reachable and the position is not open in it. In the same block
  the trader opens a position of the same size: \<open>openPosition\<close> returns the same id and stores
  an open position under it, and the next \<open>closePosition\<close> on that id succeeds. The mock does
  the same.
\<close>

theorem closed_position_reopened_counterexample:
  "closePosition scenarioA 2 scenarioA_id = Inr scenarioA_closed
   \<and> reachable scenarioA_closed
   \<and> \<not> isOpen (positions scenarioA_closed 2 scenarioA_id)
   \<and> openPosition scenarioA_closed 2 7 10 5 True 0 0 = Inr (scenarioA_id, scenarioR)
   \<and> isOpen (positions scenarioR 2 scenarioA_id)
   \<and> closePosition scenarioR 2 scenarioA_id = Inr scenarioR_closed
   \<and> closePosition_m scenarioA_m 2 scenarioA_id = Inr scenarioA_closed_m
   \<and> \<not> isOpen_m (positions_m scenarioA_closed_m 2 scenarioA_id)
   \<and> openPosition_m scenarioA_closed_m 2 7 10 5 True = Inr (scenarioA_id, scenarioR_m)
   \<and> isOpen_m (positions_m scenarioR_m 2 scenarioA_id)
   \<and> closePosition_m scenarioR_m 2 scenarioA_id = Inr scenarioR_closed_m"
  by (simp add: scenarioA_closed_close reachable_scenarioA_closed scenarioA_closed_facts
      scenarioR_open scenarioR_facts scenarioR_closed_close mock_scenarioR)

section \<open>Liquidation without the predicate\<close>








section \<open>The collateral over the lifetime of a position\<close>


lemma scenarioLS_liquidate:
  "liquidate scenarioA 2 2 scenarioA_id = Inr scenarioLS"
  by (simp add: scenarioLS_def liquidate_open scenarioA_facts)



section \<open>Updating the brackets\<close>

text \<open>
  Claim C9, as the contract has it. \<open>updateStopLossTakeProfit\<close> looks the position up under
  the caller's own account. In every reachable state a call by an account that is not the one
  packed into the position id finds no open position there and fails with
  \<open>Position not open\<close>, the same \<open>InvalidStateError\<close> as for a closed position (the contract has
  no separate revert for a caller who is not the owner), and the transaction leaves the state
  as it was. A call by the owner on an open position overwrites the stop loss and the take
  profit of that position and emits \<open>StopLossTakeProfitUpdated\<close>; the state it leaves is the one
  before the call with just these two fields and the event log changed.
\<close>

theorem updateStopLossTakeProfit_only_by_owner:
  "(reachable s \<and> packedSender p \<noteq> Some c \<longrightarrow>
      updateStopLossTakeProfit s c p sl tp = Inl Position_not_open
      \<and> transact s (UpdateStopLossTakeProfit c p sl tp) = s)
   \<and> (isOpen (positions s c p) \<longrightarrow>
        updateStopLossTakeProfit s c p sl tp =
          Inr (s\<lparr>positions := (positions s)(c := (positions s c)
                     (p := (positions s c p)\<lparr>stopLoss := sl, takeProfit := tp\<rparr>)),
                events := events s @ [StopLossTakeProfitUpdated c p]\<rparr>))
   \<and> errorClass Position_not_open = Some InvalidStateError"
proof -
  have a: "reachable s \<and> packedSender p \<noteq> Some c \<longrightarrow>
      updateStopLossTakeProfit s c p sl tp = Inl Position_not_open
      \<and> transact s (UpdateStopLossTakeProfit c p sl tp) = s"
  proof
    assume h: "reachable s \<and> packedSender p \<noteq> Some c"
    then have "\<not> isOpen (positions s c p)" using reachable_open_owner by blast
    then have "updateStopLossTakeProfit s c p sl tp = Inl Position_not_open"
      by (rule updateStopLossTakeProfit_closed)
    then show "updateStopLossTakeProfit s c p sl tp = Inl Position_not_open
      \<and> transact s (UpdateStopLossTakeProfit c p sl tp) = s"
      by (simp add: transact_def)
  qed
  have b: "isOpen (positions s c p) \<longrightarrow>
        updateStopLossTakeProfit s c p sl tp =
          Inr (s\<lparr>positions := (positions s)(c := (positions s c)
                     (p := (positions s c p)\<lparr>stopLoss := sl, takeProfit := tp\<rparr>)),
                events := events s @ [StopLossTakeProfitUpdated c p]\<rparr>)"
    by (simp add: updateStopLossTakeProfit_open emit_def setPosition_def)
  from a b show ?thesis by simp
qed

theorem updateStopLossTakeProfit_only_by_owner_witness:
  "reachable scenarioA \<and> packedSender scenarioA_id \<noteq> Some 3
   \<and> updateStopLossTakeProfit scenarioA 3 scenarioA_id 90 150 = Inl Position_not_open
   \<and> isOpen (positions scenarioA 2 scenarioA_id)
   \<and> updateStopLossTakeProfit scenarioA 2 scenarioA_id 90 150 =
       Inr (scenarioA\<lparr>positions := (positions scenarioA)(2 := (positions scenarioA 2)
              (scenarioA_id := \<lparr>size_p = 10, entryPrice = 100, collateral = 200, leverage = 5,
                 isLong = True, timestamp = 7, isOpen = True, stopLoss = 90, takeProfit = 150\<rparr>)),
             events := events scenarioA @ [StopLossTakeProfitUpdated 2 scenarioA_id]\<rparr>)"
proof -
  have h: "reachable scenarioA" "packedSender scenarioA_id \<noteq> Some 3"
    "isOpen (positions scenarioA 2 scenarioA_id)"
    by (simp_all add: reachable_scenarioA scenarioA_facts) (simp add: scenarioA_id_def)
  from updateStopLossTakeProfit_only_by_owner [of scenarioA scenarioA_id 3 90 150] h
  have no: "updateStopLossTakeProfit scenarioA 3 scenarioA_id 90 150 = Inl Position_not_open"
    by simp
  from updateStopLossTakeProfit_only_by_owner [of scenarioA scenarioA_id 2 90 150] h
  have yes: "updateStopLossTakeProfit scenarioA 2 scenarioA_id 90 150 =
          Inr (scenarioA\<lparr>positions := (positions scenarioA)(2 := (positions scenarioA 2)
                     (scenarioA_id := (positions scenarioA 2 scenarioA_id)\<lparr>stopLoss := 90, takeProfit := 150\<rparr>)),
                events := events scenarioA @ [StopLossTakeProfitUpdated 2 scenarioA_id]\<rparr>)"
    by simp
  show ?thesis using h no by (simp add: yes scenarioA_facts)
qed

text \<open>
  Claim C9 as it is stated fails on the error: in scenario A account 3, which is not the owner
  of the position, calls \<open>updateStopLossTakeProfit\<close> on it and gets \<open>Position not open\<close>, which
  is not the \<open>UnauthorizedError\<close> that a caller other than the admin gets from
  \<open>updateOraclePrice\<close>.
\<close>

theorem updateStopLossTakeProfit_non_owner_error_counterexample:
  "isOpen (positions scenarioA 2 scenarioA_id)
   \<and> packedSender scenarioA_id = Some 2
   \<and> updateStopLossTakeProfit scenarioA 3 scenarioA_id 90 150 = Inl Position_not_open
   \<and> errorClass Position_not_open = Some InvalidStateError
   \<and> errorClass Position_not_open \<noteq> Some UnauthorizedError
   \<and> updateOraclePrice scenarioA 3 8 120 = Inl Only_admin
   \<and> errorClass Only_admin = Some UnauthorizedError"
proof -
  have "\<not> isOpen (positions scenarioA 3 scenarioA_id)"
    using reachable_open_owner [OF reachable_scenarioA, of 3 scenarioA_id]
    by (auto simp add: scenarioA_id_def)
  then have "updateStopLossTakeProfit scenarioA 3 scenarioA_id 90 150 = Inl Position_not_open"
    by (rule updateStopLossTakeProfit_closed)
  moreover have "packedSender scenarioA_id = Some 2" by (simp add: scenarioA_id_def)
  moreover have "updateOraclePrice scenarioA 3 8 120 = Inl Only_admin"
    by (simp add: updateOraclePrice_def scenarioA_facts)
  ultimately show ?thesis by (simp add: scenarioA_facts)
qed

end
